theory Spec2Isabelle
  imports Complex_Main "HOL-Library.Multiset"
begin

section \<open>Values\<close>

text \<open>
  What \<^verbatim>\<open>json.load\<close> returns: \<^verbatim>\<open>None\<close>, a bool, an int (unbounded), a float, a
  string, a list or a dict. A dict is the list of its items in insertion order (the order
  \<^verbatim>\<open>keys()\<close> and \<^verbatim>\<open>items()\<close> iterate in); the keys of a parsed object are
  pairwise distinct. Floats are modelled as reals: the code only stores and compares them.
\<close>

datatype json =
    JNull
  | JBool bool
  | JInt int
  | JFloat real
  | JStr string
  | JArr "json list"
  | JObj "(string \<times> json) list"

text \<open>
  The scalars that cross the sqlite3 boundary, in either direction: \<^verbatim>\<open>None\<close>/NULL, int,
  float, str. They are also SQLite's storage classes: a column holds a value in the class
  that the affinity of its declared type gives it (see below).
\<close>

datatype sqlval = SNull | SInt int | SReal real | SText string

text \<open>
  The exceptions of the code. \<open>ProgrammingError\<close> is what sqlite3 raises on a parameter of
  an unsupported type (InterfaceError before Python 3.11); \<open>IntegrityError\<close> covers a
  violated constraint and SQLite's "datatype mismatch".
\<close>

datatype error =
    FileNotFoundError
  | IsADirectoryError
  | PermissionError
  | UnicodeDecodeError
  | JSONDecodeError
  | AttributeError
  | TypeError
  | OverflowError
  | OperationalError
  | IntegrityError
  | ProgrammingError
  | HTTPException nat

text \<open>Sequencing of fallible steps: the first exception leaves the function.\<close>

definition and_then :: "error + 'a \<Rightarrow> ('a \<Rightarrow> error + 'b) \<Rightarrow> error + 'b" where
  "and_then r f = (case r of Inl e \<Rightarrow> Inl e | Inr x \<Rightarrow> f x)"

section \<open>Python built-ins used by the code\<close>

text \<open>\<^verbatim>\<open>not json_data\<close> is the negation of Python's truth value.\<close>

fun truthy :: "json \<Rightarrow> bool" where
  "truthy JNull = False"
| "truthy (JBool b) = b"
| "truthy (JInt i) = (i \<noteq> 0)"
| "truthy (JFloat r) = (r \<noteq> 0)"
| "truthy (JStr s) = (s \<noteq> [])"
| "truthy (JArr xs) = (xs \<noteq> [])"
| "truthy (JObj kvs) = (kvs \<noteq> [])"

text \<open>\<^verbatim>\<open>len(v)\<close>: defined on strings, lists and dicts, a TypeError otherwise.\<close>

fun py_len :: "json \<Rightarrow> error + nat" where
  "py_len (JStr s) = Inr (length s)"
| "py_len (JArr xs) = Inr (length xs)"
| "py_len (JObj kvs) = Inr (length kvs)"
| "py_len JNull = Inl TypeError"
| "py_len (JBool b) = Inl TypeError"
| "py_len (JInt i) = Inl TypeError"
| "py_len (JFloat r) = Inl TypeError"

text \<open>\<^verbatim>\<open>values.get(k)\<close>: only a dict has the method; a missing key gives \<^verbatim>\<open>None\<close>.\<close>

fun dict_get :: "json \<Rightarrow> string \<Rightarrow> error + json" where
  "dict_get (JObj kvs) k = Inr (case map_of kvs k of None \<Rightarrow> JNull | Some v \<Rightarrow> v)"
| "dict_get v k = Inl AttributeError"

text \<open>\<^verbatim>\<open>str(i)\<close> for a position \<open>i \<ge> 0\<close>: its decimal digits.\<close>

definition digit :: "nat \<Rightarrow> char" where
  "digit d = ''0123456789'' ! d"

fun str :: "nat \<Rightarrow> string" where
  "str n = (if n < 10 then [digit n] else str (n div 10) @ [digit (n mod 10)])"

declare str.simps [simp del]

text \<open>The decimal text of an integer, as SQLite writes an INTEGER into a TEXT column.\<close>

definition text_of_int :: "int \<Rightarrow> string" where
  "text_of_int i = (if i < 0 then CHR ''-'' # str (nat (- i)) else str (nat i))"

section \<open>normalize\_json\<close>

text \<open>
  A normalised song is a Python dict read with \<^verbatim>\<open>get\<close> and \<^verbatim>\<open>in\<close> only, so a map.
\<close>

type_synonym song = "string \<rightharpoonup> json"

text \<open>\<^verbatim>\<open>for attr, values in json_data.items(): song[attr] = values.get(str(i))\<close>\<close>

fun set_attrs :: "nat \<Rightarrow> (string \<times> json) list \<Rightarrow> song \<Rightarrow> error + song" where
  "set_attrs i [] song = Inr song"
| "set_attrs i ((attr, values) # rest) song =
     (case dict_get values (str i) of
        Inl e \<Rightarrow> Inl e
      | Inr v \<Rightarrow> set_attrs i rest (song(attr \<mapsto> v)))"

text \<open>The body of the loop over \<open>i\<close>: lines 199 to 203.\<close>

definition build_song :: "(string \<times> json) list \<Rightarrow> nat \<Rightarrow> error + song" where
  "build_song items i =
     (case set_attrs i items [''index'' \<mapsto> JInt (int i)] of
        Inl e \<Rightarrow> Inl e
      | Inr song \<Rightarrow>
          Inr (if song ''star_rating'' = None
               then song(''star_rating'' \<mapsto> JFloat 0) else song))"

fun build_songs :: "(string \<times> json) list \<Rightarrow> nat list \<Rightarrow> error + song list" where
  "build_songs items [] = Inr []"
| "build_songs items (i # rest) =
     (case build_song items i of
        Inl e \<Rightarrow> Inl e
      | Inr song \<Rightarrow>
          (case build_songs items rest of
             Inl e \<Rightarrow> Inl e
           | Inr songs \<Rightarrow> Inr (song # songs)))"

text \<open>
  \<^verbatim>\<open>json_data.keys()\<close> raises AttributeError on a truthy value that is no dict;
  \<^verbatim>\<open>len(json_data[first_attr])\<close> raises TypeError on a value without a length.
\<close>

definition normalize_json :: "json \<Rightarrow> error + song list" where
  "normalize_json json_data =
     (if \<not> truthy json_data then Inr []
      else case json_data of
        JObj items \<Rightarrow>
          (case items of
             [] \<Rightarrow> Inr []
           | (first_attr, first_values) # _ \<Rightarrow>
               (case py_len first_values of
                  Inl e \<Rightarrow> Inl e
                | Inr song_count \<Rightarrow> build_songs items [0..<song_count]))
      | _ \<Rightarrow> Inl AttributeError)"

text \<open>
  The snapshots the function is written for (\<^verbatim>\<open>Dict[str, Dict[str, Any]]\<close>): every
  attribute maps to a dict, and the attribute names, being the keys of a dict, are
  pairwise distinct.
\<close>

fun is_dict :: "json \<Rightarrow> bool" where
  "is_dict (JObj kvs) = True"
| "is_dict v = False"

definition attribute_map :: "(string \<times> json) list \<Rightarrow> bool" where
  "attribute_map items \<longleftrightarrow>
     distinct (map fst items) \<and> list_all (\<lambda>kv. is_dict (snd kv)) items"

section \<open>The store\<close>

text \<open>
  One row of the songs table of \<^verbatim>\<open>init_db\<close>: the integer primary key, id, title, the
  sixteen analysis columns in the order of the schema, and the rating.
\<close>

record row =
  idx :: int
  id_col :: sqlval
  title :: sqlval
  features :: "sqlval list"
  star_rating :: sqlval

definition feature_columns :: "string list" where
  "feature_columns =
     [''danceability'', ''energy'', ''key'', ''loudness'', ''mode'', ''acousticness'',
      ''instrumentalness'', ''liveness'', ''valence'', ''tempo'', ''duration_ms'',
      ''time_signature'', ''num_bars'', ''num_sections'', ''num_segments'',
      ''class_label'']"

text \<open>
  The declared types of the schema, as affinities: id and title are TEXT, the analysis
  columns are REAL or INTEGER as below, star\_rating is REAL, idx is the rowid.
\<close>

datatype affinity = AffText | AffInteger | AffReal

definition feature_affinities :: "affinity list" where
  "feature_affinities =
     [AffReal, AffReal, AffInteger, AffReal, AffInteger, AffReal,
      AffReal, AffReal, AffReal, AffReal, AffInteger,
      AffInteger, AffInteger, AffInteger, AffInteger,
      AffInteger]"

text \<open>
  Three conversions are SQLite's own and are parameters of the model, so that what is
  proved holds whatever they are: the text written for a REAL that goes into a TEXT
  column, the number (an INTEGER or a REAL) that a text reads as when it goes into a
  numeric column, if it reads as one, and the rowid SQLite picks for a NULL rowid once the
  largest rowid is \<open>2^63 - 1\<close>, if it finds one.
\<close>

record engine =
  real_text :: "real \<Rightarrow> string"
  text_number :: "string \<Rightarrow> sqlval option"
  spare_rowid :: "int list \<Rightarrow> int option"

text \<open>
  A table is the list of its rows in rowid order, the order of a scan without ORDER BY.
  The committed database is \<open>None\<close> when a statement on the songs table raises (no such
  table, or a file that is no database).
\<close>

type_synonym table = "row list"
type_synonym database = "table option"

text \<open>
  What the code sees of an existing path: its modification time; what \<^verbatim>\<open>open\<close> and
  \<^verbatim>\<open>json.load\<close> (lines 239 and 240) give on it, the parsed value or the exception
  raised (IsADirectoryError, PermissionError, UnicodeDecodeError, JSONDecodeError); and
  the rows of its songs table, \<open>None\<close> when the count of line 69 raises.
\<close>

record file_info =
  mtime :: real
  json_content :: "error + json"
  songs_rows :: "table option"

type_synonym filesystem = "string \<rightharpoonup> file_info"

record config =
  DATABASE_URL :: string
  DEFAULT_JSON_FILE :: string

section \<open>should\_reload\_data\<close>

text \<open>\<^verbatim>\<open>if json_file is None: json_file = config.DEFAULT_JSON_FILE\<close>, and the like.\<close>

definition or_default :: "string option \<Rightarrow> string \<Rightarrow> string" where
  "or_default arg dflt = (case arg of None \<Rightarrow> dflt | Some p \<Rightarrow> p)"

text \<open>
  The \<^verbatim>\<open>try\<close> block counts the rows of the songs table; any exception in it returns
  True (the bare \<^verbatim>\<open>except\<close>).
\<close>

definition should_reload_data ::
  "config \<Rightarrow> filesystem \<Rightarrow> string option \<Rightarrow> string option \<Rightarrow> bool" where
  "should_reload_data cfg fs json_file db_file =
     (let json_file = or_default json_file (DEFAULT_JSON_FILE cfg);
          db_file = or_default db_file (DATABASE_URL cfg)
      in case fs json_file of
           None \<Rightarrow> False
         | Some jf \<Rightarrow>
             (case fs db_file of
                None \<Rightarrow> True
              | Some df \<Rightarrow>
                  (case songs_rows df of
                     None \<Rightarrow> True
                   | Some rows \<Rightarrow>
                       if length rows = 0 then True
                       else mtime jf > mtime df)))"

section \<open>sqlite3 statements\<close>

text \<open>The integers of SQLite and of the sqlite3 binding: signed, 64 bits.\<close>

definition int64 :: "int \<Rightarrow> bool" where
  "int64 i \<longleftrightarrow> - (2 ^ 63) \<le> i \<and> i < 2 ^ 63"

text \<open>
  Parameter binding: sqlite3 takes \<^verbatim>\<open>None\<close>, int (a bool is an int), float and str;
  it raises OverflowError on an int outside 64 bits and ProgrammingError on a list or a
  dict.
\<close>

fun bind_param :: "json \<Rightarrow> error + sqlval" where
  "bind_param JNull = Inr SNull"
| "bind_param (JBool b) = Inr (SInt (if b then 1 else 0))"
| "bind_param (JInt i) = (if int64 i then Inr (SInt i) else Inl OverflowError)"
| "bind_param (JFloat r) = Inr (SReal r)"
| "bind_param (JStr s) = Inr (SText s)"
| "bind_param (JArr xs) = Inl ProgrammingError"
| "bind_param (JObj kvs) = Inl ProgrammingError"

fun bind_params :: "json list \<Rightarrow> error + sqlval list" where
  "bind_params [] = Inr []"
| "bind_params (v # vs) =
     and_then (bind_param v) (\<lambda>x. and_then (bind_params vs) (\<lambda>xs. Inr (x # xs)))"

text \<open>
  A dictionary key must be hashable: a list or a dict as key is a TypeError. Keys are
  compared as values, \<^verbatim>\<open>True\<close> being the integer 1; that Python also takes the
  keys 1 and 1.0 for one key is not modelled (a TEXT column holds neither).
\<close>

fun dict_key :: "json \<Rightarrow> error + sqlval" where
  "dict_key JNull = Inr SNull"
| "dict_key (JBool b) = Inr (SInt (if b then 1 else 0))"
| "dict_key (JInt i) = Inr (SInt i)"
| "dict_key (JFloat r) = Inr (SReal r)"
| "dict_key (JStr s) = Inr (SText s)"
| "dict_key (JArr xs) = Inl TypeError"
| "dict_key (JObj kvs) = Inl TypeError"

text \<open>\<^verbatim>\<open>WHERE star_rating > 0\<close>: NULL compares unknown, text sorts above every number.\<close>

fun greater_zero :: "sqlval \<Rightarrow> bool" where
  "greater_zero SNull = False"
| "greater_zero (SInt i) = (0 < i)"
| "greater_zero (SReal r) = (0 < r)"
| "greater_zero (SText s) = True"

text \<open>
  Column affinity. TEXT: a number is stored as its text. INTEGER: a real with an exact
  integer value strictly inside the 64-bit range is stored as that integer, and a text
  that reads as a number as that number, converted likewise. REAL: an integer is stored
  as a real, and a text that reads as a number as that number, made real. In each case
  NULL stays NULL and a text that reads as no number stays text.
\<close>

fun text_affinity :: "engine \<Rightarrow> sqlval \<Rightarrow> sqlval" where
  "text_affinity eng SNull = SNull"
| "text_affinity eng (SInt i) = SText (text_of_int i)"
| "text_affinity eng (SReal r) = SText (real_text eng r)"
| "text_affinity eng (SText s) = SText s"

definition lossless_int :: "real \<Rightarrow> bool" where
  "lossless_int r \<longleftrightarrow> r = of_int \<lfloor>r\<rfloor> \<and> - (2 ^ 63) < \<lfloor>r\<rfloor> \<and> \<lfloor>r\<rfloor> < 2 ^ 63 - 1"

fun number_as_integer :: "sqlval \<Rightarrow> sqlval" where
  "number_as_integer (SReal r) = (if lossless_int r then SInt \<lfloor>r\<rfloor> else SReal r)"
| "number_as_integer v = v"

fun number_as_real :: "sqlval \<Rightarrow> sqlval" where
  "number_as_real (SInt i) = SReal (of_int i)"
| "number_as_real v = v"

fun integer_affinity :: "engine \<Rightarrow> sqlval \<Rightarrow> sqlval" where
  "integer_affinity eng (SText s) =
     (case text_number eng s of None \<Rightarrow> SText s | Some v \<Rightarrow> number_as_integer v)"
| "integer_affinity eng v = number_as_integer v"

fun real_affinity :: "engine \<Rightarrow> sqlval \<Rightarrow> sqlval" where
  "real_affinity eng (SText s) =
     (case text_number eng s of None \<Rightarrow> SText s | Some v \<Rightarrow> number_as_real v)"
| "real_affinity eng v = number_as_real v"

fun column_affinity :: "engine \<Rightarrow> affinity \<Rightarrow> sqlval \<Rightarrow> sqlval" where
  "column_affinity eng AffText v = text_affinity eng v"
| "column_affinity eng AffInteger v = integer_affinity eng v"
| "column_affinity eng AffReal v = real_affinity eng v"

text \<open>
  The rowid of an inserted row (\<^verbatim>\<open>idx INTEGER PRIMARY KEY\<close>). The value given must be
  NULL or, after the INTEGER conversion, an integer: anything else is a datatype mismatch.
  NULL takes 1 in an empty table and otherwise the largest rowid plus one; when the
  largest is \<open>2^63 - 1\<close> SQLite looks for an unused one and fails if it finds none.
\<close>

definition next_rowid :: "engine \<Rightarrow> table \<Rightarrow> error + int" where
  "next_rowid eng tbl =
     (if tbl = [] then Inr 1
      else if Max (set (map idx tbl)) < 2 ^ 63 - 1 then Inr (Max (set (map idx tbl)) + 1)
      else (case spare_rowid eng (map idx tbl) of
              None \<Rightarrow> Inl OperationalError
            | Some i \<Rightarrow> Inr i))"

definition rowid_of :: "engine \<Rightarrow> table \<Rightarrow> sqlval \<Rightarrow> error + int" where
  "rowid_of eng tbl v =
     (case integer_affinity eng v of
        SNull \<Rightarrow> next_rowid eng tbl
      | SInt i \<Rightarrow> Inr i
      | SReal r \<Rightarrow> Inl IntegrityError
      | SText s \<Rightarrow> Inl IntegrityError)"

text \<open>
  \<^verbatim>\<open>INSERT INTO songs\<close>: every value is stored under the affinity of its column, and a
  second row with a rowid already there is refused.
\<close>

definition sql_insert ::
  "engine \<Rightarrow> table \<Rightarrow> sqlval \<Rightarrow> sqlval \<Rightarrow> sqlval \<Rightarrow> sqlval list \<Rightarrow> sqlval \<Rightarrow> error + table"
  where
  "sql_insert eng tbl idx_v id_v title_v feature_vs rating_v =
     and_then (rowid_of eng tbl idx_v) (\<lambda>i.
       if i \<in> set (map idx tbl) then Inl IntegrityError
       else Inr (insort_key idx
              \<lparr>idx = i, id_col = text_affinity eng id_v, title = text_affinity eng title_v,
               features = map2 (column_affinity eng) feature_affinities feature_vs,
               star_rating = real_affinity eng rating_v\<rparr> tbl))"

text \<open>
  \<^verbatim>\<open>SELECT * FROM songs ORDER BY idx LIMIT l OFFSET o\<close>, the two numbers written into
  the text of the statement (line 324). SQLite reads a literal outside 64 bits as a real
  and refuses it as LIMIT or OFFSET with "datatype mismatch"; a negative limit is no limit
  and a negative offset is no offset.
\<close>

definition sql_select_page :: "table \<Rightarrow> int \<Rightarrow> int \<Rightarrow> error + row list" where
  "sql_select_page tbl row_limit row_offset =
     (if \<not> int64 row_limit \<or> \<not> int64 row_offset then Inl IntegrityError
      else let rest = drop (nat row_offset) (sort_key idx tbl)
           in Inr (if row_limit < 0 then rest else take (nat row_limit) rest))"

text \<open>\<^verbatim>\<open>SELECT * FROM songs WHERE title = ?\<close> with a string parameter.\<close>

definition sql_select_title :: "table \<Rightarrow> string \<Rightarrow> row list" where
  "sql_select_title tbl t = filter (\<lambda>r. title r = SText t) tbl"

text \<open>\<^verbatim>\<open>DELETE FROM songs\<close>\<close>

definition sql_delete_all :: "table \<Rightarrow> table" where
  "sql_delete_all tbl = []"

declare sql_delete_all_def [simp]

text \<open>\<^verbatim>\<open>UPDATE songs SET star_rating = ? WHERE id = ?\<close>: the new table and the rowcount.\<close>

definition sql_update_rating :: "table \<Rightarrow> real \<Rightarrow> string \<Rightarrow> table \<times> nat" where
  "sql_update_rating tbl rating song_id =
     (map (\<lambda>r. if id_col r = SText song_id then r\<lparr>star_rating := SReal rating\<rparr> else r) tbl,
      length (filter (\<lambda>r. id_col r = SText song_id) tbl))"

section \<open>load\_data\<close>

text \<open>\<^verbatim>\<open>song.get(k)\<close>\<close>

definition song_get :: "song \<Rightarrow> string \<Rightarrow> json" where
  "song_get song k = (case song k of None \<Rightarrow> JNull | Some v \<Rightarrow> v)"

text \<open>
  \<^verbatim>\<open>{row[0]: row[1] for row in cursor.fetchall()}\<close> over the rows with a positive
  rating: a later row replaces the entry of an earlier one.
\<close>

definition existing_ratings_of :: "table \<Rightarrow> (sqlval \<rightharpoonup> sqlval)" where
  "existing_ratings_of tbl =
     foldl (\<lambda>m r. m(id_col r \<mapsto> star_rating r)) Map.empty
       (filter (\<lambda>r. greater_zero (star_rating r)) tbl)"

text \<open>Line 261.\<close>

definition preserved_rating :: "bool \<Rightarrow> (sqlval \<rightharpoonup> sqlval) \<Rightarrow> song \<Rightarrow> error + sqlval" where
  "preserved_rating preserve_ratings existing_ratings song =
     (if preserve_ratings
      then and_then (dict_key (song_get song ''id''))
             (\<lambda>k. Inr (case existing_ratings k of None \<Rightarrow> SReal 0 | Some v \<Rightarrow> v))
      else Inr (SReal 0))"

text \<open>Lines 264 to 291: the twenty parameters are bound in order, then the row goes in.\<close>

definition insert_song :: "engine \<Rightarrow> table \<Rightarrow> song \<Rightarrow> sqlval \<Rightarrow> error + table" where
  "insert_song eng tbl song rating =
     and_then (bind_param (song_get song ''index'')) (\<lambda>idx_v.
     and_then (bind_param (song_get song ''id'')) (\<lambda>id_v.
     and_then (bind_param (song_get song ''title'')) (\<lambda>title_v.
     and_then (bind_params (map (song_get song) feature_columns)) (\<lambda>feature_vs.
       sql_insert eng tbl idx_v id_v title_v feature_vs rating))))"

text \<open>The loop of lines 260 to 291 over the working table of the open transaction.\<close>

fun insert_songs ::
  "engine \<Rightarrow> bool \<Rightarrow> (sqlval \<rightharpoonup> sqlval) \<Rightarrow> song list \<Rightarrow> table \<Rightarrow> error + table" where
  "insert_songs eng preserve_ratings existing_ratings [] tbl = Inr tbl"
| "insert_songs eng preserve_ratings existing_ratings (song # songs) tbl =
     and_then (preserved_rating preserve_ratings existing_ratings song) (\<lambda>rating.
     and_then (insert_song eng tbl song rating) (\<lambda>tbl'.
       insert_songs eng preserve_ratings existing_ratings songs tbl'))"

text \<open>
  \<^verbatim>\<open>load_data\<close> returns its result and the committed database. sqlite3 opens a
  transaction before the DELETE of line 258 and nothing is committed before line 293: an
  exception on the way leaves the function without a commit, and the work of the
  transaction is dropped with the connection. The SELECT of line 249 sits in a
  \<^verbatim>\<open>try\<close> whose \<^verbatim>\<open>except\<close> passes; the DELETE does not.
\<close>

definition load_data ::
  "engine \<Rightarrow> filesystem \<Rightarrow> database \<Rightarrow> string \<Rightarrow> bool \<Rightarrow> (error + nat) \<times> database" where
  "load_data eng fs db file_path preserve_ratings =
     (case fs file_path of
        None \<Rightarrow> (Inl FileNotFoundError, db)
      | Some f \<Rightarrow>
          (case json_content f of
             Inl e \<Rightarrow> (Inl e, db)
           | Inr json_data \<Rightarrow>
               (case normalize_json json_data of
                  Inl e \<Rightarrow> (Inl e, db)
                | Inr songs \<Rightarrow>
                    (let existing_ratings =
                           (if preserve_ratings
                            then (case db of None \<Rightarrow> Map.empty
                                  | Some tbl \<Rightarrow> existing_ratings_of tbl)
                            else Map.empty)
                     in case db of
                          None \<Rightarrow> (Inl OperationalError, db)
                        | Some tbl \<Rightarrow>
                            (case insert_songs eng preserve_ratings existing_ratings songs
                                    (sql_delete_all tbl) of
                               Inl e \<Rightarrow> (Inl e, db)
                             | Inr tbl' \<Rightarrow> (Inr (length songs), Some tbl'))))))"

text \<open>
  The row that the INSERT writes for a record, up to its rowid and its rating: id, title
  and the analysis columns are the record's values as bound, each under the affinity of
  its column.
\<close>

definition row_of_song :: "engine \<Rightarrow> song \<Rightarrow> row \<Rightarrow> bool" where
  "row_of_song eng song r \<longleftrightarrow>
     and_then (bind_param (song_get song ''id'')) (\<lambda>v. Inr (text_affinity eng v))
       = Inr (id_col r) \<and>
     and_then (bind_param (song_get song ''title'')) (\<lambda>v. Inr (text_affinity eng v))
       = Inr (title r) \<and>
     and_then (bind_params (map (song_get song) feature_columns))
       (\<lambda>vs. Inr (map2 (column_affinity eng) feature_affinities vs)) = Inr (features r)"

text \<open>A record id that a TEXT column stores as it is: a string or \<^verbatim>\<open>None\<close>.\<close>

fun string_or_null :: "json \<Rightarrow> bool" where
  "string_or_null JNull = True"
| "string_or_null (JStr s) = True"
| "string_or_null v = False"

section \<open>Endpoints\<close>

text \<open>
  \<^verbatim>\<open>dict(row)\<close>, then \<^verbatim>\<open>song['index'] = song.pop('idx')\<close>.
\<close>

type_synonym song_out = "string \<rightharpoonup> sqlval"

definition dict_of_row :: "row \<Rightarrow> song_out" where
  "dict_of_row r =
     map_of ([(''idx'', SInt (idx r)), (''id'', id_col r), (''title'', title r)]
             @ zip feature_columns (features r)
             @ [(''star_rating'', star_rating r)])"

definition song_of_row :: "row \<Rightarrow> song_out" where
  "song_of_row r =
     (let song = dict_of_row r
      in (song(''idx'' := None))(''index'' \<mapsto> SInt (idx r)))"

text \<open>
  The endpoints return their result and the committed database. \<^verbatim>\<open>get_all_songs\<close> and
  \<^verbatim>\<open>search_by_title\<close> run one SELECT and never commit; an exception of the SELECT
  leaves the function as it is.
\<close>

definition get_all_songs ::
  "database \<Rightarrow> int \<Rightarrow> int \<Rightarrow> (error + song_out list) \<times> database" where
  "get_all_songs db page limit =
     (let offset = (page - 1) * limit
      in case db of
           None \<Rightarrow> (Inl OperationalError, db)
         | Some tbl \<Rightarrow>
             (case sql_select_page tbl limit offset of
                Inl e \<Rightarrow> (Inl e, db)
              | Inr rows \<Rightarrow> (Inr (map song_of_row rows), db)))"

definition search_by_title :: "database \<Rightarrow> string \<Rightarrow> (error + song_out list) \<times> database" where
  "search_by_title db t =
     (case db of
        None \<Rightarrow> (Inl OperationalError, db)
      | Some tbl \<Rightarrow> (Inr (map song_of_row (sql_select_title tbl t)), db))"

text \<open>
  \<^verbatim>\<open>rate_song\<close>: the range check comes before the connection is opened; a rowcount of
  zero closes the connection without a commit; otherwise the update is committed and the
  response carries the id and the rating.
\<close>

definition rate_song ::
  "database \<Rightarrow> string \<Rightarrow> real \<Rightarrow> (error + string \<times> real) \<times> database" where
  "rate_song db song_id rating =
     (if \<not> (0 \<le> rating \<and> rating \<le> 5) then (Inl (HTTPException 400), db)
      else case db of
        None \<Rightarrow> (Inl OperationalError, db)
      | Some tbl \<Rightarrow>
          (case sql_update_rating tbl rating song_id of
             (tbl', rowcount) \<Rightarrow>
               if rowcount = 0 then (Inl (HTTPException 404), db)
               else (Inr (song_id, rating), Some tbl')))"

section \<open>The spec's reading of the rating update\<close>

text \<open>
  The spec (section 9, non-unique id) words the update of a duplicated id as "the first
  match wins": of the rows with the id, the first in the table takes the rating and no
  other row changes. This definition follows those words; \<open>sql_update_rating\<close> above
  follows line 399.
\<close>

fun update_first_match :: "table \<Rightarrow> real \<Rightarrow> string \<Rightarrow> table" where
  "update_first_match [] rating song_id = []"
| "update_first_match (r # rs) rating song_id =
     (if id_col r = SText song_id then r\<lparr>star_rating := SReal rating\<rparr> # rs
      else r # update_first_match rs rating song_id)"

section \<open>Reload decision\<close>

text \<open>
  C1. \<^verbatim>\<open>should_reload_data\<close> is false when the snapshot file does not exist; true when
  the snapshot exists and the store file does not; true when the store exists and its
  songs table is empty or cannot be read; and in every other case it is true exactly when
  the snapshot's modification time is strictly greater than the store's. An omitted path
  stands for the configured one.
\<close>

theorem should_reload_data_cases:
  "(fs (or_default json_file (DEFAULT_JSON_FILE cfg)) = None
      \<longrightarrow> \<not> should_reload_data cfg fs json_file db_file) \<and>
   (fs (or_default json_file (DEFAULT_JSON_FILE cfg)) = Some jf \<and>
    fs (or_default db_file (DATABASE_URL cfg)) = None
      \<longrightarrow> should_reload_data cfg fs json_file db_file) \<and>
   (fs (or_default json_file (DEFAULT_JSON_FILE cfg)) = Some jf \<and>
    fs (or_default db_file (DATABASE_URL cfg)) = Some df \<and>
    (songs_rows df = None \<or> songs_rows df = Some [])
      \<longrightarrow> should_reload_data cfg fs json_file db_file) \<and>
   (fs (or_default json_file (DEFAULT_JSON_FILE cfg)) = Some jf \<and>
    fs (or_default db_file (DATABASE_URL cfg)) = Some df \<and>
    songs_rows df = Some rows \<and> rows \<noteq> []
      \<longrightarrow> should_reload_data cfg fs json_file db_file = (mtime jf > mtime df))"
  by (auto simp: should_reload_data_def)

theorem should_reload_data_cases_witness:
  "\<not> should_reload_data \<lparr>DATABASE_URL = ''database.db'', DEFAULT_JSON_FILE = ''playlist.json''\<rparr>
       Map.empty None None \<and>
   should_reload_data \<lparr>DATABASE_URL = ''database.db'', DEFAULT_JSON_FILE = ''playlist.json''\<rparr>
       [''playlist.json'' \<mapsto> \<lparr>mtime = 2, json_content = Inr (JObj []), songs_rows = None\<rparr>]
       None None \<and>
   should_reload_data \<lparr>DATABASE_URL = ''database.db'', DEFAULT_JSON_FILE = ''playlist.json''\<rparr>
       [''a.json'' \<mapsto> \<lparr>mtime = 2, json_content = Inr (JObj []), songs_rows = None\<rparr>,
        ''a.db'' \<mapsto> \<lparr>mtime = 3, json_content = Inl JSONDecodeError, songs_rows = Some []\<rparr>]
       (Some ''a.json'') (Some ''a.db'') \<and>
   should_reload_data \<lparr>DATABASE_URL = ''database.db'', DEFAULT_JSON_FILE = ''playlist.json''\<rparr>
       [''a.json'' \<mapsto> \<lparr>mtime = 2, json_content = Inr (JObj []), songs_rows = None\<rparr>,
        ''a.db'' \<mapsto> \<lparr>mtime = 1, json_content = Inl JSONDecodeError,
           songs_rows = Some [\<lparr>idx = 0, id_col = SText ''a'', title = SText ''X'',
                                features = [], star_rating = SReal 0\<rparr>]\<rparr>]
       (Some ''a.json'') (Some ''a.db'') = ((2::real) > 1)"
  using
    should_reload_data_cases [of Map.empty None
       "\<lparr>DATABASE_URL = ''database.db'', DEFAULT_JSON_FILE = ''playlist.json''\<rparr>" None]
    should_reload_data_cases [of
       "[''playlist.json'' \<mapsto> \<lparr>mtime = 2, json_content = Inr (JObj []), songs_rows = None\<rparr>]"
       None "\<lparr>DATABASE_URL = ''database.db'', DEFAULT_JSON_FILE = ''playlist.json''\<rparr>"
       None "\<lparr>mtime = 2, json_content = Inr (JObj []), songs_rows = None\<rparr>"]
    should_reload_data_cases [of
       "[''a.json'' \<mapsto> \<lparr>mtime = 2, json_content = Inr (JObj []), songs_rows = None\<rparr>,
        ''a.db'' \<mapsto> \<lparr>mtime = 3, json_content = Inl JSONDecodeError, songs_rows = Some []\<rparr>]"
       "Some ''a.json''" "\<lparr>DATABASE_URL = ''database.db'', DEFAULT_JSON_FILE = ''playlist.json''\<rparr>"
       "Some ''a.db''" "\<lparr>mtime = 2, json_content = Inr (JObj []), songs_rows = None\<rparr>"
       "\<lparr>mtime = 3, json_content = Inl JSONDecodeError, songs_rows = Some []\<rparr>"]
    should_reload_data_cases [of
       "[''a.json'' \<mapsto> \<lparr>mtime = 2, json_content = Inr (JObj []), songs_rows = None\<rparr>,
        ''a.db'' \<mapsto> \<lparr>mtime = 1, json_content = Inl JSONDecodeError,
           songs_rows = Some [\<lparr>idx = 0, id_col = SText ''a'', title = SText ''X'',
                                features = [], star_rating = SReal 0\<rparr>]\<rparr>]"
       "Some ''a.json''" "\<lparr>DATABASE_URL = ''database.db'', DEFAULT_JSON_FILE = ''playlist.json''\<rparr>"
       "Some ''a.db''" "\<lparr>mtime = 2, json_content = Inr (JObj []), songs_rows = None\<rparr>"
       "\<lparr>mtime = 1, json_content = Inl JSONDecodeError,
           songs_rows = Some [\<lparr>idx = 0, id_col = SText ''a'', title = SText ''X'',
                                features = [], star_rating = SReal 0\<rparr>]\<rparr>"
       "[\<lparr>idx = 0, id_col = SText ''a'', title = SText ''X'',
                                features = [], star_rating = SReal 0\<rparr>]"]
  by (simp add: or_default_def)

section \<open>Normalisation\<close>

lemma and_then_Inr_iff:
  "and_then r f = Inr y \<longleftrightarrow> (\<exists>x. r = Inr x \<and> f x = Inr y)"
  by (cases r) (simp_all add: and_then_def)

lemma set_attrs_other:
  "set_attrs i items song = Inr s' \<Longrightarrow> k \<notin> fst ` set items \<Longrightarrow> s' k = song k"
proof (induction items arbitrary: song)
  case Nil
  then show ?case by simp
next
  case (Cons kv items)
  obtain attr vals where kv: "kv = (attr, vals)" by (cases kv)
  from Cons.prems obtain v where v: "dict_get vals (str i) = Inr v"
    and rest: "set_attrs i items (song(attr \<mapsto> v)) = Inr s'"
    by (auto simp: kv split: sum.splits)
  from Cons.prems(2) have "k \<noteq> attr" "k \<notin> fst ` set items" by (auto simp: kv)
  with Cons.IH [OF rest] show ?case by simp
qed

lemma set_attrs_field:
  "set_attrs i items song = Inr s' \<Longrightarrow> distinct (map fst items) \<Longrightarrow>
   (attr, JObj kvs) \<in> set items \<Longrightarrow>
   s' attr = Some (case map_of kvs (str i) of None \<Rightarrow> JNull | Some v \<Rightarrow> v)"
proof (induction items arbitrary: song)
  case Nil
  then show ?case by simp
next
  case (Cons kv items)
  obtain a vals where kv: "kv = (a, vals)" by (cases kv)
  from Cons.prems(1) obtain v where v: "dict_get vals (str i) = Inr v"
    and rest: "set_attrs i items (song(a \<mapsto> v)) = Inr s'"
    by (auto simp: kv split: sum.splits)
  show ?case
  proof (cases "(attr, JObj kvs) \<in> set items")
    case True
    with Cons.IH [OF rest] Cons.prems(2) show ?thesis by simp
  next
    case False
    with Cons.prems(3) have eq: "a = attr" "vals = JObj kvs" by (auto simp: kv)
    from Cons.prems(2) have "attr \<notin> fst ` set items" by (simp add: kv eq)
    from set_attrs_other [OF rest this] v show ?thesis by (simp add: eq)
  qed
qed

lemma set_attrs_dom:
  "set_attrs i items song = Inr s' \<Longrightarrow> dom s' = dom song \<union> fst ` set items"
proof (induction items arbitrary: song)
  case Nil
  then show ?case by simp
next
  case (Cons kv items)
  obtain a vals where kv: "kv = (a, vals)" by (cases kv)
  from Cons.prems(1) obtain v where v: "dict_get vals (str i) = Inr v"
    and rest: "set_attrs i items (song(a \<mapsto> v)) = Inr s'"
    by (auto simp: kv split: sum.splits)
  from Cons.IH [OF rest] show ?case by (auto simp: kv)
qed

lemma set_attrs_total:
  "list_all (\<lambda>kv. is_dict (snd kv)) items \<Longrightarrow> \<exists>s'. set_attrs i items song = Inr s'"
proof (induction items arbitrary: song)
  case Nil
  then show ?case by simp
next
  case (Cons kv items)
  obtain a vals where kv: "kv = (a, vals)" by (cases kv)
  from Cons.prems obtain kvs where "vals = JObj kvs" by (cases vals) (auto simp: kv)
  with Cons show ?case by (simp add: kv)
qed

lemma build_song_total:
  "list_all (\<lambda>kv. is_dict (snd kv)) items \<Longrightarrow> \<exists>song. build_song items i = Inr song"
  using set_attrs_total [of items i "[''index'' \<mapsto> JInt (int i)]"]
  by (auto simp: build_song_def)

lemma build_song_field:
  assumes "build_song items i = Inr song" and "distinct (map fst items)"
    and "(attr, JObj kvs) \<in> set items"
  shows "song attr = Some (case map_of kvs (str i) of None \<Rightarrow> JNull | Some v \<Rightarrow> v)"
proof -
  from assms(1) obtain s' where s': "set_attrs i items [''index'' \<mapsto> JInt (int i)] = Inr s'"
    and song: "song = (if s' ''star_rating'' = None then s'(''star_rating'' \<mapsto> JFloat 0) else s')"
    by (auto simp: build_song_def split: sum.splits)
  have f: "s' attr = Some (case map_of kvs (str i) of None \<Rightarrow> JNull | Some v \<Rightarrow> v)"
    by (rule set_attrs_field [OF s' assms(2,3)])
  show ?thesis
  proof (cases "attr = ''star_rating''")
    case True
    with f have "s' ''star_rating'' \<noteq> None" by simp
    with f song show ?thesis by simp
  next
    case False
    with f song show ?thesis by simp
  qed
qed

lemma build_song_index:
  assumes "build_song items i = Inr song" and "''index'' \<notin> fst ` set items"
  shows "song ''index'' = Some (JInt (int i))"
proof -
  from assms(1) obtain s' where s': "set_attrs i items [''index'' \<mapsto> JInt (int i)] = Inr s'"
    and song: "song = (if s' ''star_rating'' = None then s'(''star_rating'' \<mapsto> JFloat 0) else s')"
    by (auto simp: build_song_def split: sum.splits)
  from set_attrs_other [OF s' assms(2)] song show ?thesis by simp
qed

lemma build_song_star_rating:
  assumes "build_song items i = Inr song"
  shows "song ''star_rating'' \<noteq> None"
    and "''star_rating'' \<notin> fst ` set items \<Longrightarrow> song ''star_rating'' = Some (JFloat 0)"
proof -
  from assms(1) obtain s' where s': "set_attrs i items [''index'' \<mapsto> JInt (int i)] = Inr s'"
    and song: "song = (if s' ''star_rating'' = None then s'(''star_rating'' \<mapsto> JFloat 0) else s')"
    by (auto simp: build_song_def split: sum.splits)
  from song show "song ''star_rating'' \<noteq> None" by simp
  assume "''star_rating'' \<notin> fst ` set items"
  from set_attrs_other [OF s' this] song show "song ''star_rating'' = Some (JFloat 0)" by simp
qed

lemma build_songs_nth:
  "build_songs items ns = Inr songs \<Longrightarrow>
   length songs = length ns \<and> (\<forall>n < length ns. build_song items (ns ! n) = Inr (songs ! n))"
proof (induction ns arbitrary: songs)
  case Nil
  then show ?case by simp
next
  case (Cons i ns)
  from Cons.prems obtain song rest where song: "build_song items i = Inr song"
    and rest: "build_songs items ns = Inr rest" and songs: "songs = song # rest"
    by (auto split: sum.splits)
  from Cons.IH [OF rest] song show ?case by (auto simp: songs nth_Cons')
qed

lemma build_songs_total:
  "list_all (\<lambda>kv. is_dict (snd kv)) items \<Longrightarrow> \<exists>songs. build_songs items ns = Inr songs"
proof (induction ns)
  case Nil
  then show ?case by simp
next
  case (Cons i ns)
  from build_song_total [OF Cons.prems, of i] obtain song where "build_song items i = Inr song" ..
  moreover from Cons obtain rest where "build_songs items ns = Inr rest" by blast
  ultimately show ?case by simp
qed

lemma normalize_json_records:
  assumes "attribute_map ((first_attr, JObj first_values) # rest)"
  shows "\<exists>songs. normalize_json (JObj ((first_attr, JObj first_values) # rest)) = Inr songs \<and>
           length songs = length first_values \<and>
           (\<forall>i < length first_values.
              build_song ((first_attr, JObj first_values) # rest) i = Inr (songs ! i))"
proof -
  let ?items = "(first_attr, JObj first_values) # rest"
  from assms have dicts: "list_all (\<lambda>kv. is_dict (snd kv)) ?items"
    by (simp add: attribute_map_def)
  from build_songs_total [OF dicts, of "[0..<length first_values]"]
  obtain songs where songs: "build_songs ?items [0..<length first_values] = Inr songs" ..
  from build_songs_nth [OF songs] songs show ?thesis
    by (simp add: normalize_json_def)
qed

text \<open>
  What holds of the records of an attribute map: there is one per entry of the first
  attribute's sub-map, each has a \<^verbatim>\<open>star_rating\<close> field, which is 0.0 when the snapshot
  has no such attribute, and each has its position as \<^verbatim>\<open>index\<close> provided the snapshot
  has no attribute of that name. An empty or absent snapshot gives the empty list.
\<close>

lemma normalize_json_attribute_map:
  assumes "attribute_map ((first_attr, JObj first_values) # rest)"
  shows "\<exists>songs. normalize_json (JObj ((first_attr, JObj first_values) # rest)) = Inr songs \<and>
           length songs = length first_values \<and>
           (\<forall>i < length first_values.
              (songs ! i) ''star_rating'' \<noteq> None \<and>
              (''star_rating'' \<notin> fst ` set ((first_attr, JObj first_values) # rest)
                 \<longrightarrow> (songs ! i) ''star_rating'' = Some (JFloat 0)) \<and>
              (''index'' \<notin> fst ` set ((first_attr, JObj first_values) # rest)
                 \<longrightarrow> (songs ! i) ''index'' = Some (JInt (int i))))"
proof -
  from normalize_json_records [OF assms] obtain songs
    where songs: "normalize_json (JObj ((first_attr, JObj first_values) # rest)) = Inr songs"
      and len: "length songs = length first_values"
      and nth: "\<forall>i < length first_values.
                  build_song ((first_attr, JObj first_values) # rest) i = Inr (songs ! i)"
    by blast
  show ?thesis
    using songs len nth build_song_star_rating build_song_index by blast
qed

lemma normalize_json_empty:
  "normalize_json JNull = Inr []" "normalize_json (JObj []) = Inr []"
  by (simp_all add: normalize_json_def)

text \<open>
  C2. The claim: a snapshot whose first attribute has N entries gives N records, each with
  a distinct index in 0..N-1 and a \<^verbatim>\<open>star_rating\<close> field. The docstring says the same
  (an "index" field for each song based on its position). The loop of line 200 runs after
  \<^verbatim>\<open>song = {"index": i}\<close> and assigns every attribute of the snapshot, so an attribute
  named \<^verbatim>\<open>index\<close> replaces the position: the snapshot
  \<^verbatim>\<open>{"id": {"0": "a", "1": "b"}, "index": {"0": 5, "1": 5}}\<close> gives two records that
  both have index 5.
\<close>

theorem normalize_json_index_overwritten:
  "\<exists>songs.
     normalize_json
       (JObj [(''id'', JObj [(''0'', JStr ''a''), (''1'', JStr ''b'')]),
              (''index'', JObj [(''0'', JInt 5), (''1'', JInt 5)])]) = Inr songs \<and>
     map (\<lambda>song. song ''index'') songs = [Some (JInt 5), Some (JInt 5)]"
  by (simp add: normalize_json_def build_song_def str.simps digit_def upt_rec)

text \<open>
  C6. In the records of an attribute map, an attribute of the snapshot that has no entry
  at the key \<^verbatim>\<open>str(i)\<close> is a field of record \<open>i\<close> all the same, with the value
  \<^verbatim>\<open>None\<close>.
\<close>

theorem normalize_json_missing_value:
  assumes "attribute_map ((first_attr, JObj first_values) # rest)"
    and "(attr, JObj kvs) \<in> set ((first_attr, JObj first_values) # rest)"
    and "i < length first_values"
    and "map_of kvs (str i) = None"
  shows "\<exists>songs. normalize_json (JObj ((first_attr, JObj first_values) # rest)) = Inr songs \<and>
           length songs = length first_values \<and>
           (songs ! i) attr = Some JNull"
proof -
  from normalize_json_records [OF assms(1)] obtain songs
    where songs: "normalize_json (JObj ((first_attr, JObj first_values) # rest)) = Inr songs"
      and len: "length songs = length first_values"
      and nth: "\<forall>i < length first_values.
                  build_song ((first_attr, JObj first_values) # rest) i = Inr (songs ! i)"
    by blast
  from nth assms(3)
  have "build_song ((first_attr, JObj first_values) # rest) i = Inr (songs ! i)" by blast
  moreover from assms(1) have "distinct (map fst ((first_attr, JObj first_values) # rest))"
    by (simp add: attribute_map_def)
  ultimately have "(songs ! i) attr =
      Some (case map_of kvs (str i) of None \<Rightarrow> JNull | Some v \<Rightarrow> v)"
    using assms(2) by (rule build_song_field)
  with assms(4) songs len show ?thesis by simp
qed

theorem normalize_json_missing_value_witness:
  "\<exists>songs. normalize_json
       (JObj ((''id'', JObj [(''0'', JStr ''test1''), (''1'', JStr ''test2'')])
              # [(''title'', JObj [(''0'', JStr ''Song1'')])])) = Inr songs \<and>
     length songs = length [(''0'', JStr ''test1''), (''1'', JStr ''test2'')] \<and>
     (songs ! 1) ''title'' = Some JNull"
proof -
  have 1: "attribute_map ((''id'', JObj [(''0'', JStr ''test1''), (''1'', JStr ''test2'')])
              # [(''title'', JObj [(''0'', JStr ''Song1'')])])"
    by (simp add: attribute_map_def)
  have 2: "(''title'', JObj [(''0'', JStr ''Song1'')])
      \<in> set ((''id'', JObj [(''0'', JStr ''test1''), (''1'', JStr ''test2'')])
              # [(''title'', JObj [(''0'', JStr ''Song1'')])])"
    by simp
  have 3: "1 < length [(''0'', JStr ''test1''), (''1'', JStr ''test2'')]" by simp
  have 4: "map_of [(''0'', JStr ''Song1'')] (str 1) = None"
    by (simp add: str.simps digit_def)
  show ?thesis by (rule normalize_json_missing_value [OF 1 2 3 4])
qed

text \<open>
  C9. When the snapshot has an attribute named \<^verbatim>\<open>star_rating\<close>, record \<open>i\<close> takes
  that attribute's value at the key \<^verbatim>\<open>str(i)\<close>, and \<^verbatim>\<open>None\<close> when there is no entry:
  the default 0.0 is not applied, it is for snapshots without the attribute (line 202).
\<close>

theorem normalize_json_star_rating_attribute:
  assumes "attribute_map ((first_attr, JObj first_values) # rest)"
    and "(''star_rating'', JObj kvs) \<in> set ((first_attr, JObj first_values) # rest)"
    and "i < length first_values"
  shows "\<exists>songs. normalize_json (JObj ((first_attr, JObj first_values) # rest)) = Inr songs \<and>
           (songs ! i) ''star_rating'' =
              Some (case map_of kvs (str i) of None \<Rightarrow> JNull | Some v \<Rightarrow> v) \<and>
           (map_of kvs (str i) = None \<longrightarrow>
              (songs ! i) ''star_rating'' = Some JNull \<and>
              (songs ! i) ''star_rating'' \<noteq> Some (JFloat 0))"
proof -
  from normalize_json_records [OF assms(1)] obtain songs
    where songs: "normalize_json (JObj ((first_attr, JObj first_values) # rest)) = Inr songs"
      and nth: "\<forall>i < length first_values.
                  build_song ((first_attr, JObj first_values) # rest) i = Inr (songs ! i)"
    by blast
  from nth assms(3)
  have "build_song ((first_attr, JObj first_values) # rest) i = Inr (songs ! i)" by blast
  moreover from assms(1) have "distinct (map fst ((first_attr, JObj first_values) # rest))"
    by (simp add: attribute_map_def)
  ultimately have "(songs ! i) ''star_rating'' =
      Some (case map_of kvs (str i) of None \<Rightarrow> JNull | Some v \<Rightarrow> v)"
    using assms(2) by (rule build_song_field)
  with songs show ?thesis by auto
qed

theorem normalize_json_star_rating_attribute_witness:
  "\<exists>songs. normalize_json
       (JObj ((''id'', JObj [(''0'', JStr ''a''), (''1'', JStr ''b'')])
              # [(''star_rating'', JObj [(''0'', JFloat 3)])])) = Inr songs \<and>
     (songs ! 1) ''star_rating'' = Some JNull \<and>
     (songs ! 1) ''star_rating'' \<noteq> Some (JFloat 0)"
proof -
  have 1: "attribute_map ((''id'', JObj [(''0'', JStr ''a''), (''1'', JStr ''b'')])
              # [(''star_rating'', JObj [(''0'', JFloat 3)])])"
    by (simp add: attribute_map_def)
  have 2: "(''star_rating'', JObj [(''0'', JFloat 3)])
      \<in> set ((''id'', JObj [(''0'', JStr ''a''), (''1'', JStr ''b'')])
              # [(''star_rating'', JObj [(''0'', JFloat 3)])])"
    by simp
  have 3: "1 < length [(''0'', JStr ''a''), (''1'', JStr ''b'')]" by simp
  have 4: "map_of [(''0'', JFloat 3)] (str 1) = None"
    by (simp add: str.simps digit_def)
  from normalize_json_star_rating_attribute [OF 1 2 3] 4 show ?thesis by simp
qed

section \<open>Query surface\<close>

text \<open>
  The record returned for a row has the row's values under the names of the columns, the
  rowid under \<^verbatim>\<open>index\<close> and no \<^verbatim>\<open>idx\<close>.
\<close>

lemma song_of_row_fields:
  "song_of_row r ''index'' = Some (SInt (idx r))"
  "song_of_row r ''idx'' = None"
  "song_of_row r ''id'' = Some (id_col r)"
  "song_of_row r ''title'' = Some (title r)"
  "song_of_row r ''star_rating'' = Some (star_rating r)"
proof -
  have "''star_rating'' \<notin> set feature_columns" by (simp add: feature_columns_def)
  then have "''star_rating'' \<notin> fst ` set (zip feature_columns (features r))"
    by (auto dest: set_zip_leftD)
  then have "map_of (zip feature_columns (features r)) ''star_rating'' = None"
    by (simp add: map_of_eq_None_iff)
  then show "song_of_row r ''star_rating'' = Some (star_rating r)"
    by (simp add: song_of_row_def dict_of_row_def map_add_def)
qed (simp_all add: song_of_row_def dict_of_row_def)

lemma song_of_row_feature:
  assumes "i < length (features r)" and "i < length feature_columns"
  shows "song_of_row r (feature_columns ! i) = Some (features r ! i)"
proof -
  let ?k = "feature_columns ! i"
  have d: "distinct feature_columns" by (simp add: feature_columns_def)
  from assms have "?k \<in> set feature_columns" by simp
  then have k: "?k \<noteq> ''index''" "?k \<noteq> ''idx''" "?k \<noteq> ''id''" "?k \<noteq> ''title''"
    by (auto simp: feature_columns_def)
  have dz: "distinct (map fst (zip feature_columns (features r)))"
    using d by (simp add: map_fst_zip_take)
  from assms have "(?k, features r ! i) \<in> set (zip feature_columns (features r))"
    by (auto simp: set_zip)
  with dz have "map_of (zip feature_columns (features r)) ?k = Some (features r ! i)"
    by (rule map_of_is_SomeI)
  with k show ?thesis
    by (simp add: song_of_row_def dict_of_row_def map_add_def)
qed

text \<open>
  With \<open>page \<ge> 1\<close>, \<open>1 \<le> limit \<le> 100\<close> and an offset below \<open>2^63\<close>,
  \<^verbatim>\<open>get_all_songs\<close> returns the records of the rows in ascending order of idx, without
  the first \<open>(page - 1) * limit\<close> of them and at most \<open>limit\<close> of them, and the empty list
  when the offset is at or beyond the number of rows.
\<close>

lemma sorted_page:
  "sorted (map idx (take l (drop k (sort_key idx tbl))))"
proof -
  have "sorted (map idx (sort_key idx tbl))" by (rule sorted_sort_key)
  then have "sorted (drop k (map idx (sort_key idx tbl)))" by (rule sorted_wrt_drop)
  then have "sorted (take l (drop k (map idx (sort_key idx tbl))))" by (rule sorted_wrt_take)
  then show ?thesis by (simp add: take_map drop_map)
qed

lemma get_all_songs_in_range:
  assumes "1 \<le> page" and "1 \<le> limit" and "limit \<le> 100" and "(page - 1) * limit < 2 ^ 63"
  shows "\<exists>rows. get_all_songs (Some tbl) page limit = (Inr (map song_of_row rows), Some tbl) \<and>
           rows = take (nat limit) (drop (nat ((page - 1) * limit)) (sort_key idx tbl)) \<and>
           sorted (map idx rows) \<and> length rows \<le> nat limit \<and>
           (int (length tbl) \<le> (page - 1) * limit \<longrightarrow> rows = [])"
proof -
  let ?rows = "take (nat limit) (drop (nat ((page - 1) * limit)) (sort_key idx tbl))"
  have small: "int64 x" if "0 \<le> x" and "x < 2 ^ 63" for x :: int
    using that by (simp add: int64_def)
  from assms have "0 \<le> (page - 1) * limit" by simp
  with assms have "int64 limit" "int64 ((page - 1) * limit)" by (simp_all add: small)
  with assms have "sql_select_page tbl limit ((page - 1) * limit) = Inr ?rows"
    by (simp add: sql_select_page_def)
  then have "get_all_songs (Some tbl) page limit = (Inr (map song_of_row ?rows), Some tbl)"
    by (simp add: get_all_songs_def)
  moreover have "sorted (map idx ?rows)" by (rule sorted_page)
  moreover have "length ?rows \<le> nat limit" by simp
  moreover have "int (length tbl) \<le> (page - 1) * limit \<longrightarrow> ?rows = []" by auto
  ultimately show ?thesis by blast
qed

text \<open>
  C7. The claim, and the docstring of \<^verbatim>\<open>get_all_songs\<close> (an empty list if the page is
  beyond the available data): for every \<open>page \<ge> 1\<close> and \<open>1 \<le> limit \<le> 100\<close> the call
  returns, with the empty list when the offset is at or beyond the number of rows. Nothing
  bounds \<open>page\<close> from above, and line 324 writes \<open>(page - 1) * limit\<close> into the SQL
  text: with page 9223372036854775809 and limit 1 the offset is \<open>2^63\<close>, SQLite refuses
  it and the call raises IntegrityError on a table of one row, where the claim has the
  empty list.
\<close>

theorem get_all_songs_offset_overflow:
  "get_all_songs
     (Some [\<lparr>idx = 0, id_col = SText ''a'', title = SText ''X'', features = [],
             star_rating = SReal 0\<rparr>])
     9223372036854775809 1
   = (Inl IntegrityError,
      Some [\<lparr>idx = 0, id_col = SText ''a'', title = SText ''X'', features = [],
              star_rating = SReal 0\<rparr>])"
  by (simp add: get_all_songs_def sql_select_page_def int64_def)

text \<open>
  The two readers leave the committed database as it was, whatever it is and whatever the
  arguments, whether they return or raise. On a stored table \<^verbatim>\<open>search_by_title\<close>
  returns; \<^verbatim>\<open>get_all_songs\<close>, for \<open>page \<ge> 1\<close> and \<open>1 \<le> limit \<le> 100\<close>, returns when
  the offset is below \<open>2^63\<close> and raises otherwise.
\<close>

theorem readers_leave_store:
  "snd (get_all_songs db page limit) = db \<and> snd (search_by_title db t) = db \<and>
   (\<exists>songs. search_by_title (Some tbl) t = (Inr songs, Some tbl)) \<and>
   (1 \<le> page \<and> 1 \<le> limit \<and> limit \<le> 100 \<and> (page - 1) * limit < 2 ^ 63 \<longrightarrow>
      (\<exists>songs. get_all_songs (Some tbl) page limit = (Inr songs, Some tbl))) \<and>
   (1 \<le> page \<and> 1 \<le> limit \<and> limit \<le> 100 \<and> 2 ^ 63 \<le> (page - 1) * limit \<longrightarrow>
      get_all_songs (Some tbl) page limit = (Inl IntegrityError, Some tbl))"
proof (intro conjI impI)
  show "snd (get_all_songs db page limit) = db"
    by (simp add: get_all_songs_def Let_def split: option.split sum.split)
  show "snd (search_by_title db t) = db"
    by (simp add: search_by_title_def split: option.split)
  show "\<exists>songs. search_by_title (Some tbl) t = (Inr songs, Some tbl)"
    by (simp add: search_by_title_def)
next
  assume "1 \<le> page \<and> 1 \<le> limit \<and> limit \<le> 100 \<and> (page - 1) * limit < 2 ^ 63"
  then have "1 \<le> page" "1 \<le> limit" "limit \<le> 100" "(page - 1) * limit < 2 ^ 63" by simp_all
  from get_all_songs_in_range [OF this]
  show "\<exists>songs. get_all_songs (Some tbl) page limit = (Inr songs, Some tbl)" by blast
next
  assume "1 \<le> page \<and> 1 \<le> limit \<and> limit \<le> 100 \<and> 2 ^ 63 \<le> (page - 1) * limit"
  then have "\<not> int64 ((page - 1) * limit)" by (simp add: int64_def)
  then show "get_all_songs (Some tbl) page limit = (Inl IntegrityError, Some tbl)"
    by (simp add: get_all_songs_def sql_select_page_def)
qed

theorem readers_leave_store_witness:
  "(\<exists>songs. get_all_songs
       (Some [\<lparr>idx = 0, id_col = SText ''a'', title = SText ''X'', features = [],
               star_rating = SReal 2\<rparr>]) 1 20
     = (Inr songs,
        Some [\<lparr>idx = 0, id_col = SText ''a'', title = SText ''X'', features = [],
               star_rating = SReal 2\<rparr>])) \<and>
   get_all_songs
       (Some [\<lparr>idx = 0, id_col = SText ''a'', title = SText ''X'', features = [],
               star_rating = SReal 2\<rparr>]) 9223372036854775809 1
     = (Inl IntegrityError,
        Some [\<lparr>idx = 0, id_col = SText ''a'', title = SText ''X'', features = [],
               star_rating = SReal 2\<rparr>])"
proof -
  let ?t = "[\<lparr>idx = 0, id_col = SText ''a'', title = SText ''X'', features = [],
               star_rating = SReal 2\<rparr>]"
  have 1: "(1::int) \<le> 1 \<and> (1::int) \<le> 20 \<and> (20::int) \<le> 100 \<and> (1 - 1) * (20::int) < 2 ^ 63"
    by simp
  have 2: "(1::int) \<le> 9223372036854775809 \<and> (1::int) \<le> 1 \<and> (1::int) \<le> 100 \<and>
           2 ^ 63 \<le> (9223372036854775809 - 1) * (1::int)"
    by simp
  from readers_leave_store [where page = 1 and limit = 20 and tbl = ?t] 1
  have a: "\<exists>songs. get_all_songs (Some ?t) 1 20 = (Inr songs, Some ?t)" by blast
  from readers_leave_store [where page = 9223372036854775809 and limit = 1 and tbl = ?t] 2
  have b: "get_all_songs (Some ?t) 9223372036854775809 1 = (Inl IntegrityError, Some ?t)"
    by blast
  from a b show ?thesis by blast
qed


text \<open>
  C4. \<^verbatim>\<open>rate_song\<close> fails with status 400 on a rating outside [0, 5], whatever the
  store, which is left as it was; with status 404 when no row has the id, the store again
  as it was; and otherwise it returns the id and the rating, and the committed table has
  the new rating in the rows with that id and every other row as before.
\<close>

theorem rate_song_cases:
  "(\<not> (0 \<le> rating \<and> rating \<le> 5) \<longrightarrow>
      rate_song db song_id rating = (Inl (HTTPException 400), db)) \<and>
   (0 \<le> rating \<and> rating \<le> 5 \<and> (\<forall>r \<in> set tbl. id_col r \<noteq> SText song_id) \<longrightarrow>
      rate_song (Some tbl) song_id rating = (Inl (HTTPException 404), Some tbl)) \<and>
   (0 \<le> rating \<and> rating \<le> 5 \<and> (\<exists>r \<in> set tbl. id_col r = SText song_id) \<longrightarrow>
      (\<exists>tbl'. rate_song (Some tbl) song_id rating = (Inr (song_id, rating), Some tbl') \<and>
         length tbl' = length tbl \<and>
         (\<forall>n < length tbl.
            tbl' ! n = (if id_col (tbl ! n) = SText song_id
                        then (tbl ! n)\<lparr>star_rating := SReal rating\<rparr> else tbl ! n))))"
proof (intro conjI impI)
  assume "\<not> (0 \<le> rating \<and> rating \<le> 5)"
  then show "rate_song db song_id rating = (Inl (HTTPException 400), db)"
    by (simp add: rate_song_def)
next
  assume "0 \<le> rating \<and> rating \<le> 5 \<and> (\<forall>r \<in> set tbl. id_col r \<noteq> SText song_id)"
  then show "rate_song (Some tbl) song_id rating = (Inl (HTTPException 404), Some tbl)"
    by (simp add: rate_song_def sql_update_rating_def filter_empty_conv)
next
  assume a: "0 \<le> rating \<and> rating \<le> 5 \<and> (\<exists>r \<in> set tbl. id_col r = SText song_id)"
  then have "filter (\<lambda>r. id_col r = SText song_id) tbl \<noteq> []"
    by (simp add: filter_empty_conv)
  with a show "\<exists>tbl'. rate_song (Some tbl) song_id rating = (Inr (song_id, rating), Some tbl') \<and>
         length tbl' = length tbl \<and>
         (\<forall>n < length tbl.
            tbl' ! n = (if id_col (tbl ! n) = SText song_id
                        then (tbl ! n)\<lparr>star_rating := SReal rating\<rparr> else tbl ! n))"
    by (simp add: rate_song_def sql_update_rating_def)
qed

theorem rate_song_cases_witness:
  "rate_song (Some [\<lparr>idx = 0, id_col = SText ''a'', title = SText ''X'', features = [], star_rating = SReal 0\<rparr>])
      ''a'' 6 =
     (Inl (HTTPException 400),
      Some [\<lparr>idx = 0, id_col = SText ''a'', title = SText ''X'', features = [], star_rating = SReal 0\<rparr>]) \<and>
   rate_song (Some [\<lparr>idx = 0, id_col = SText ''a'', title = SText ''X'', features = [], star_rating = SReal 0\<rparr>])
      ''b'' 4.5 =
     (Inl (HTTPException 404),
      Some [\<lparr>idx = 0, id_col = SText ''a'', title = SText ''X'', features = [], star_rating = SReal 0\<rparr>]) \<and>
   rate_song (Some [\<lparr>idx = 0, id_col = SText ''a'', title = SText ''X'', features = [], star_rating = SReal 0\<rparr>])
      ''a'' 4.5 =
     (Inr (''a'', 4.5),
      Some [\<lparr>idx = 0, id_col = SText ''a'', title = SText ''X'', features = [], star_rating = SReal 4.5\<rparr>])"
proof -
  let ?t = "[\<lparr>idx = 0, id_col = SText ''a'', title = SText ''X'', features = [], star_rating = SReal 0\<rparr>]"
  have 1: "\<not> (0 \<le> (6::real) \<and> (6::real) \<le> 5)" by simp
  have 2: "0 \<le> (4.5::real) \<and> (4.5::real) \<le> 5 \<and> (\<forall>r \<in> set ?t. id_col r \<noteq> SText ''b'')" by simp
  have 3: "0 \<le> (4.5::real) \<and> (4.5::real) \<le> 5 \<and> (\<exists>r \<in> set ?t. id_col r = SText ''a'')" by simp
  from rate_song_cases [where rating = 6 and db = "Some ?t" and song_id = "''a''"] 1
  have a: "rate_song (Some ?t) ''a'' 6 = (Inl (HTTPException 400), Some ?t)" by blast
  from rate_song_cases [where rating = "4.5" and tbl = ?t and song_id = "''b''"] 2
  have b: "rate_song (Some ?t) ''b'' 4.5 = (Inl (HTTPException 404), Some ?t)" by blast
  from rate_song_cases [where rating = "4.5" and tbl = ?t and song_id = "''a''"] 3
  obtain tbl' where c: "rate_song (Some ?t) ''a'' 4.5 = (Inr (''a'', 4.5), Some tbl')"
    and l: "length tbl' = length ?t"
    and n: "\<forall>n < length ?t. tbl' ! n = (if id_col (?t ! n) = SText ''a''
                        then (?t ! n)\<lparr>star_rating := SReal 4.5\<rparr> else ?t ! n)"
    by blast
  from l n have "tbl' = [\<lparr>idx = 0, id_col = SText ''a'', title = SText ''X'', features = [], star_rating = SReal 4.5\<rparr>]"
    by (cases tbl') simp_all
  with a b c show ?thesis by simp
qed

section \<open>Ingestion\<close>

lemma bind_param_dict_key: "bind_param v = Inr x \<Longrightarrow> dict_key v = Inr x"
  by (cases v) (simp_all split: if_splits)

lemma insert_song_row:
  assumes "insert_song eng tbl song rating = Inr tbl'"
  shows "\<exists>r. tbl' = insort_key idx r tbl \<and> idx r \<notin> set (map idx tbl) \<and>
             row_of_song eng song r \<and> star_rating r = real_affinity eng rating"
proof -
  from assms obtain idx_v id_v title_v feature_vs i
    where b: "bind_param (song_get song ''id'') = Inr id_v"
             "bind_param (song_get song ''title'') = Inr title_v"
             "bind_params (map (song_get song) feature_columns) = Inr feature_vs"
      and i: "rowid_of eng tbl idx_v = Inr i"
      and ins: "(if i \<in> set (map idx tbl) then Inl IntegrityError
                 else Inr (insort_key idx
                   \<lparr>idx = i, id_col = text_affinity eng id_v,
                    title = text_affinity eng title_v,
                    features = map2 (column_affinity eng) feature_affinities feature_vs,
                    star_rating = real_affinity eng rating\<rparr> tbl)) = Inr tbl'"
    unfolding insert_song_def sql_insert_def and_then_Inr_iff by blast
  let ?r = "\<lparr>idx = i, id_col = text_affinity eng id_v, title = text_affinity eng title_v,
             features = map2 (column_affinity eng) feature_affinities feature_vs,
             star_rating = real_affinity eng rating\<rparr>"
  from ins have "i \<notin> set (map idx tbl)" and "tbl' = insort_key idx ?r tbl"
    by (auto split: if_splits)
  with b show ?thesis by (intro exI [of _ ?r]) (simp add: row_of_song_def and_then_def)
qed

lemma insert_songs_rows:
  "insert_songs eng preserve ex songs tbl = Inr tbl' \<Longrightarrow>
   \<exists>rows. mset tbl' = mset tbl + mset rows \<and>
          list_all2 (\<lambda>song r. row_of_song eng song r \<and>
                       and_then (preserved_rating preserve ex song) (\<lambda>v. Inr (real_affinity eng v))
                         = Inr (star_rating r)) songs rows"
proof (induction songs arbitrary: tbl)
  case Nil
  then show ?case by simp
next
  case (Cons song songs)
  from Cons.prems obtain rating tbl1
    where rt: "preserved_rating preserve ex song = Inr rating"
      and one: "insert_song eng tbl song rating = Inr tbl1"
      and rest: "insert_songs eng preserve ex songs tbl1 = Inr tbl'"
    by (auto simp: and_then_Inr_iff)
  from insert_song_row [OF one] obtain r
    where r: "tbl1 = insort_key idx r tbl" "row_of_song eng song r"
      "star_rating r = real_affinity eng rating"
    by blast
  from Cons.IH [OF rest] obtain rows
    where rows: "mset tbl' = mset tbl1 + mset rows"
      "list_all2 (\<lambda>song r. row_of_song eng song r \<and>
                       and_then (preserved_rating preserve ex song) (\<lambda>v. Inr (real_affinity eng v))
                         = Inr (star_rating r)) songs rows"
    by blast
  from r rows rt show ?case
    by (intro exI [of _ "r # rows"]) (simp add: and_then_def)
qed

lemma insert_songs_from_empty:
  assumes "insert_songs eng preserve ex songs [] = Inr tbl'"
  shows "\<exists>rows. mset rows = mset tbl' \<and>
           list_all2 (\<lambda>song r. row_of_song eng song r \<and>
                        and_then (preserved_rating preserve ex song) (\<lambda>v. Inr (real_affinity eng v))
                         = Inr (star_rating r)) songs rows"
  using insert_songs_rows [OF assms] by auto

lemma insert_songs_length:
  assumes "insert_songs eng preserve ex songs tbl = Inr tbl'"
  shows "length tbl' = length tbl + length songs"
proof -
  from insert_songs_rows [OF assms] obtain rows
    where m: "mset tbl' = mset tbl + mset rows"
      and l: "list_all2 (\<lambda>song r. row_of_song eng song r \<and>
                and_then (preserved_rating preserve ex song) (\<lambda>v. Inr (real_affinity eng v))
                         = Inr (star_rating r)) songs rows"
    by blast
  from m have "size (mset tbl') = size (mset tbl + mset rows)" by simp
  with list_all2_lengthD [OF l] show ?thesis by simp
qed

lemma map_idx_insort_key:
  "map idx (insort_key idx r tbl) = insort (idx r) (map idx tbl)"
  by (induction tbl) simp_all

lemma insert_song_keys:
  assumes "insert_song eng tbl song rating = Inr tbl'"
  shows "distinct (map idx tbl) \<Longrightarrow> distinct (map idx tbl')"
    and "sorted (map idx tbl) \<Longrightarrow> sorted (map idx tbl')"
proof -
  from insert_song_row [OF assms] obtain r
    where r: "tbl' = insort_key idx r tbl" "idx r \<notin> set (map idx tbl)" by blast
  show "distinct (map idx tbl) \<Longrightarrow> distinct (map idx tbl')"
    using r by (simp add: map_idx_insort_key distinct_insort)
  show "sorted (map idx tbl) \<Longrightarrow> sorted (map idx tbl')"
    using r by (simp add: map_idx_insort_key sorted_insort)
qed

lemma insert_songs_keys:
  "insert_songs eng preserve ex songs tbl = Inr tbl' \<Longrightarrow>
   distinct (map idx tbl) \<and> sorted (map idx tbl) \<Longrightarrow>
   distinct (map idx tbl') \<and> sorted (map idx tbl')"
proof (induction songs arbitrary: tbl)
  case Nil
  then show ?case by simp
next
  case (Cons song songs)
  from Cons.prems(1) obtain rating tbl1
    where one: "insert_song eng tbl song rating = Inr tbl1"
      and rest: "insert_songs eng preserve ex songs tbl1 = Inr tbl'"
    by (auto simp: and_then_Inr_iff)
  from insert_song_keys [OF one] Cons.prems(2)
  have "distinct (map idx tbl1) \<and> sorted (map idx tbl1)" by blast
  with Cons.IH [OF rest] show ?case .
qed

lemma normalize_json_count:
  assumes "normalize_json (JObj ((first_attr, first_values) # rest)) = Inr songs"
  shows "py_len first_values = Inr (length songs)"
proof -
  from assms obtain song_count where n: "py_len first_values = Inr song_count"
    and b: "build_songs ((first_attr, first_values) # rest) [0..<song_count] = Inr songs"
    by (auto simp: normalize_json_def split: sum.splits)
  from build_songs_nth [OF b] n show ?thesis by simp
qed

lemma load_data_Inr:
  assumes "load_data eng fs db file_path preserve = (Inr n, db')"
  obtains f json_data songs tbl tbl'
  where "fs file_path = Some f" and "json_content f = Inr json_data"
    and "normalize_json json_data = Inr songs" and "db = Some tbl"
    and "insert_songs eng preserve (if preserve then existing_ratings_of tbl else Map.empty)
           songs [] = Inr tbl'"
    and "n = length songs" and "db' = Some tbl'"
  using assms
  by (auto simp: load_data_def Let_def split: option.splits sum.splits)

lemma load_data_Inl:
  "load_data eng fs db file_path preserve = (Inl e, db') \<Longrightarrow> db' = db"
  by (auto simp: load_data_def Let_def split: option.splits sum.splits)

text \<open>
  C5, as the code has it. A successful \<^verbatim>\<open>load_data\<close> leaves a table with exactly one
  row per normalised record: the rows are, in some order, the records' values as bound
  and stored under the affinities of their columns, with pairwise distinct rowids. The
  table is empty exactly when there is no record, and for a snapshot with attributes the
  number of rows is the length of the first attribute's sub-map. A failed
  \<^verbatim>\<open>load_data\<close> leaves the committed database as it was, whatever the failure and
  wherever it occurred: no state with the old rows deleted or some of the new ones
  inserted is ever committed. A missing snapshot fails with FileNotFoundError, and one
  that cannot be read or parsed with the exception of \<^verbatim>\<open>open\<close> or \<^verbatim>\<open>json.load\<close>
  (JSONDecodeError for malformed text), both before the store is opened.
\<close>

theorem load_data_atomic:
  "(load_data eng fs db file_path preserve = (Inr n, db') \<longrightarrow>
      (\<exists>f json_data songs tbl'.
         fs file_path = Some f \<and> json_content f = Inr json_data \<and>
         normalize_json json_data = Inr songs \<and> n = length songs \<and>
         db' = Some tbl' \<and> length tbl' = length songs \<and> (tbl' = []) = (songs = []) \<and>
         distinct (map idx tbl') \<and>
         (\<exists>rows. mset rows = mset tbl' \<and> list_all2 (row_of_song eng) songs rows) \<and>
         (\<forall>first_attr first_values rest.
            json_data = JObj ((first_attr, first_values) # rest) \<longrightarrow>
            py_len first_values = Inr (length tbl')))) \<and>
   (load_data eng fs db file_path preserve = (Inl e, db') \<longrightarrow> db' = db) \<and>
   (fs file_path = None \<longrightarrow>
      load_data eng fs db file_path preserve = (Inl FileNotFoundError, db)) \<and>
   (fs file_path = Some f0 \<and> json_content f0 = Inl e0 \<longrightarrow>
      load_data eng fs db file_path preserve = (Inl e0, db))"
proof (intro conjI impI)
  assume ok: "load_data eng fs db file_path preserve = (Inr n, db')"
  then obtain f json_data songs tbl tbl'
    where f: "fs file_path = Some f" "json_content f = Inr json_data"
      and songs: "normalize_json json_data = Inr songs"
      and ins: "insert_songs eng preserve
                  (if preserve then existing_ratings_of tbl else Map.empty) songs [] = Inr tbl'"
      and n: "n = length songs" "db' = Some tbl'"
    by (rule load_data_Inr)
  from insert_songs_length [OF ins] have len: "length tbl' = length songs" by simp
  then have ne: "(tbl' = []) = (songs = [])" by auto
  from insert_songs_keys [OF ins] have d: "distinct (map idx tbl')" by simp
  from insert_songs_from_empty [OF ins] obtain rows
    where "mset rows = mset tbl'"
      and "list_all2 (\<lambda>song r. row_of_song eng song r \<and>
             and_then (preserved_rating preserve
                  (if preserve then existing_ratings_of tbl else Map.empty) song)
               (\<lambda>v. Inr (real_affinity eng v)) = Inr (star_rating r)) songs rows"
    by blast
  then have rows: "\<exists>rows. mset rows = mset tbl' \<and> list_all2 (row_of_song eng) songs rows"
    by (auto elim: list_all2_mono)
  have first: "\<forall>first_attr first_values rest.
            json_data = JObj ((first_attr, first_values) # rest) \<longrightarrow>
            py_len first_values = Inr (length tbl')"
    using songs len normalize_json_count by auto
  from f songs n len ne d rows first
  show "\<exists>f json_data songs tbl'.
         fs file_path = Some f \<and> json_content f = Inr json_data \<and>
         normalize_json json_data = Inr songs \<and> n = length songs \<and>
         db' = Some tbl' \<and> length tbl' = length songs \<and> (tbl' = []) = (songs = []) \<and>
         distinct (map idx tbl') \<and>
         (\<exists>rows. mset rows = mset tbl' \<and> list_all2 (row_of_song eng) songs rows) \<and>
         (\<forall>first_attr first_values rest.
            json_data = JObj ((first_attr, first_values) # rest) \<longrightarrow>
            py_len first_values = Inr (length tbl'))"
    by blast
next
  assume "load_data eng fs db file_path preserve = (Inl e, db')"
  then show "db' = db" by (rule load_data_Inl)
next
  assume "fs file_path = None"
  then show "load_data eng fs db file_path preserve = (Inl FileNotFoundError, db)"
    by (simp add: load_data_def)
next
  assume "fs file_path = Some f0 \<and> json_content f0 = Inl e0"
  then show "load_data eng fs db file_path preserve = (Inl e0, db)"
    by (simp add: load_data_def)
qed

theorem load_data_atomic_witness:
  "(\<exists>tbl'. load_data \<lparr>real_text = (\<lambda>r. []), text_number = (\<lambda>s. None), spare_rowid = (\<lambda>ids. None)\<rparr>
       [''playlist.json'' \<mapsto> \<lparr>mtime = 1, json_content = Inr (JObj
          [(''id'', JObj [(''0'', JStr ''a''), (''1'', JStr ''b'')]),
           (''title'', JObj [(''0'', JStr ''X''), (''1'', JStr ''Y'')])]), songs_rows = None\<rparr>]
       (Some [\<lparr>idx = 7, id_col = SText ''old'', title = SText ''Old'', features = [],
               star_rating = SReal 2\<rparr>])
       ''playlist.json'' False = (Inr 2, Some tbl') \<and> length tbl' = 2) \<and>
   load_data \<lparr>real_text = (\<lambda>r. []), text_number = (\<lambda>s. None), spare_rowid = (\<lambda>ids. None)\<rparr>
     [''playlist.json'' \<mapsto> \<lparr>mtime = 1, json_content = Inr (JObj
        [(''id'', JObj [(''0'', JStr ''a''), (''1'', JStr ''b'')]),
         (''title'', JObj [(''0'', JStr ''X''), (''1'', JArr [JStr ''Y''])])]), songs_rows = None\<rparr>]
     (Some [\<lparr>idx = 7, id_col = SText ''old'', title = SText ''Old'', features = [],
             star_rating = SReal 2\<rparr>])
     ''playlist.json'' False
   = (Inl ProgrammingError,
      Some [\<lparr>idx = 7, id_col = SText ''old'', title = SText ''Old'', features = [],
             star_rating = SReal 2\<rparr>]) \<and>
   load_data \<lparr>real_text = (\<lambda>r. []), text_number = (\<lambda>s. None), spare_rowid = (\<lambda>ids. None)\<rparr> Map.empty (Some []) ''playlist.json'' True
     = (Inl FileNotFoundError, Some []) \<and>
   load_data \<lparr>real_text = (\<lambda>r. []), text_number = (\<lambda>s. None), spare_rowid = (\<lambda>ids. None)\<rparr>
     [''playlist.json'' \<mapsto> \<lparr>mtime = 1, json_content = Inl JSONDecodeError, songs_rows = None\<rparr>]
     (Some []) ''playlist.json'' True = (Inl JSONDecodeError, Some [])"
proof -
  let ?eng = "\<lparr>real_text = (\<lambda>r. []), text_number = (\<lambda>s. None), spare_rowid = (\<lambda>ids. None)\<rparr>"
  let ?old = "Some [\<lparr>idx = 7, id_col = SText ''old'', title = SText ''Old'', features = [],
                     star_rating = SReal 2\<rparr>]"
  let ?good = "[''playlist.json'' \<mapsto> \<lparr>mtime = 1, json_content = Inr (JObj
          [(''id'', JObj [(''0'', JStr ''a''), (''1'', JStr ''b'')]),
           (''title'', JObj [(''0'', JStr ''X''), (''1'', JStr ''Y'')])]), songs_rows = None\<rparr>]"
  let ?bad = "[''playlist.json'' \<mapsto> \<lparr>mtime = 1, json_content = Inr (JObj
        [(''id'', JObj [(''0'', JStr ''a''), (''1'', JStr ''b'')]),
         (''title'', JObj [(''0'', JStr ''X''), (''1'', JArr [JStr ''Y''])])]), songs_rows = None\<rparr>]"
  have "fst (load_data ?eng ?good ?old ''playlist.json'' False) = Inr 2"
    by (simp add: load_data_def normalize_json_def build_song_def str.simps digit_def upt_rec
        insert_song_def sql_insert_def rowid_of_def next_rowid_def and_then_def song_get_def
        feature_columns_def feature_affinities_def preserved_rating_def int64_def
        existing_ratings_of_def text_of_int_def eval_nat_numeral)
  then have g: "load_data ?eng ?good ?old ''playlist.json'' False
      = (Inr 2, snd (load_data ?eng ?good ?old ''playlist.json'' False))"
    by (simp add: prod_eq_iff)
  with load_data_atomic [where eng = ?eng and fs = ?good and db = ?old
      and file_path = "''playlist.json''" and preserve = False and n = 2
      and db' = "snd (load_data ?eng ?good ?old ''playlist.json'' False)"]
  obtain songs tbl' where "2 = length (songs :: song list)"
    and "snd (load_data ?eng ?good ?old ''playlist.json'' False) = Some tbl'"
    and "length tbl' = length songs"
    by blast
  with g have 1: "\<exists>tbl'. load_data ?eng ?good ?old ''playlist.json'' False = (Inr 2, Some tbl') \<and>
      length tbl' = 2"
    by auto
  have "fst (load_data ?eng ?bad ?old ''playlist.json'' False) = Inl ProgrammingError"
    by (simp add: load_data_def normalize_json_def build_song_def str.simps digit_def upt_rec
        insert_song_def sql_insert_def rowid_of_def next_rowid_def and_then_def song_get_def
        feature_columns_def feature_affinities_def preserved_rating_def int64_def
        existing_ratings_of_def text_of_int_def eval_nat_numeral)
  then have e: "load_data ?eng ?bad ?old ''playlist.json'' False
      = (Inl ProgrammingError, snd (load_data ?eng ?bad ?old ''playlist.json'' False))"
    by (simp add: prod_eq_iff)
  with load_data_atomic [where eng = ?eng and fs = ?bad and db = ?old
      and file_path = "''playlist.json''" and preserve = False and e = ProgrammingError
      and db' = "snd (load_data ?eng ?bad ?old ''playlist.json'' False)"]
  have "snd (load_data ?eng ?bad ?old ''playlist.json'' False) = ?old" by blast
  with e have 2: "load_data ?eng ?bad ?old ''playlist.json'' False = (Inl ProgrammingError, ?old)"
    by simp
  from load_data_atomic [where eng = ?eng and fs = Map.empty and db = "Some []"
      and file_path = "''playlist.json''" and preserve = True]
  have 3: "load_data ?eng Map.empty (Some []) ''playlist.json'' True
      = (Inl FileNotFoundError, Some [])"
    by simp
  from load_data_atomic [where eng = ?eng and db = "Some []" and file_path = "''playlist.json''"
      and preserve = True
      and fs = "[''playlist.json'' \<mapsto>
                  \<lparr>mtime = 1, json_content = Inl JSONDecodeError, songs_rows = None\<rparr>]"
      and ?f0.0 = "\<lparr>mtime = 1, json_content = Inl JSONDecodeError, songs_rows = None\<rparr>"
      and ?e0.0 = JSONDecodeError]
  have 4: "load_data ?eng
     [''playlist.json'' \<mapsto> \<lparr>mtime = 1, json_content = Inl JSONDecodeError, songs_rows = None\<rparr>]
     (Some []) ''playlist.json'' True = (Inl JSONDecodeError, Some [])"
    by simp
  from 1 2 3 4 show ?thesis by blast
qed

text \<open>
  C5, as the claim has it: never zero rows after a successful call on a non-empty
  snapshot. The snapshot \<^verbatim>\<open>{"id": {}, "title": {"0": "X"}}\<close> is not empty, its first
  attribute has no entry, so there is no record: the call deletes the row of the table,
  commits and returns 0.
\<close>

theorem load_data_empty_first_attribute:
  "load_data
     \<lparr>real_text = (\<lambda>r. []), text_number = (\<lambda>s. None), spare_rowid = (\<lambda>ids. None)\<rparr>
     [''playlist.json'' \<mapsto> \<lparr>mtime = 1, json_content = Inr (JObj
        [(''id'', JObj []),
         (''title'', JObj [(''0'', JStr ''X'')])]), songs_rows = None\<rparr>]
     (Some [\<lparr>idx = 0, id_col = SText ''old'', title = SText ''Old'', features = [],
             star_rating = SReal 2\<rparr>])
     ''playlist.json'' False
   = (Inr 0, Some [])"
  by (simp add: load_data_def normalize_json_def)

section \<open>Ratings across a reload\<close>

lemma existing_ratings_of_snoc:
  "existing_ratings_of (tbl @ [r]) =
     (if greater_zero (star_rating r)
      then (existing_ratings_of tbl)(id_col r \<mapsto> star_rating r)
      else existing_ratings_of tbl)"
  by (simp add: existing_ratings_of_def)

lemma existing_ratings_of_last:
  "existing_ratings_of tbl k =
     (if filter (\<lambda>r. id_col r = k \<and> greater_zero (star_rating r)) tbl = [] then None
      else Some (star_rating
             (last (filter (\<lambda>r. id_col r = k \<and> greater_zero (star_rating r)) tbl))))"
proof (induction tbl rule: rev_induct)
  case Nil
  show ?case by (simp add: existing_ratings_of_def)
next
  case (snoc r tbl)
  then show ?case by (simp add: existing_ratings_of_snoc)
qed

lemma existing_ratings_of_uniform:
  assumes "\<forall>r \<in> set tbl. greater_zero (star_rating r) \<longrightarrow> id_col r = k0 \<and> star_rating r = v0"
  shows "existing_ratings_of tbl k =
           (if k = k0 \<and> (\<exists>r \<in> set tbl. greater_zero (star_rating r)) then Some v0 else None)"
proof -
  let ?rs = "filter (\<lambda>r. id_col r = k \<and> greater_zero (star_rating r)) tbl"
  show ?thesis
  proof (cases "?rs = []")
    case True
    then have "\<not> (k = k0 \<and> (\<exists>r \<in> set tbl. greater_zero (star_rating r)))"
      using assms by (auto simp: filter_empty_conv)
    with True show ?thesis by (simp add: existing_ratings_of_last)
  next
    case False
    then have "last ?rs \<in> set ?rs" by (rule last_in_set)
    then have "last ?rs \<in> set tbl" "id_col (last ?rs) = k" "greater_zero (star_rating (last ?rs))"
      by simp_all
    with assms have "k = k0" "star_rating (last ?rs) = v0"
      "\<exists>r \<in> set tbl. greater_zero (star_rating r)" by auto
    with False show ?thesis by (simp add: existing_ratings_of_last)
  qed
qed

lemma rate_song_Inr:
  assumes "rate_song db song_id rating = (Inr resp, db')"
  obtains tbl where "db = Some tbl" and "0 \<le> rating" and "rating \<le> 5"
    and "\<exists>r \<in> set tbl. id_col r = SText song_id"
    and "db' = Some (map (\<lambda>r. if id_col r = SText song_id
                              then r\<lparr>star_rating := SReal rating\<rparr> else r) tbl)"
    and "resp = (song_id, rating)"
proof -
  from assms have range: "0 \<le> rating" "rating \<le> 5"
    by (auto simp: rate_song_def split: if_splits)
  with assms obtain tbl where db: "db = Some tbl"
    by (cases db) (auto simp: rate_song_def)
  from assms range db
  have ne: "filter (\<lambda>r. id_col r = SText song_id) tbl \<noteq> []"
    and rest: "db' = Some (map (\<lambda>r. if id_col r = SText song_id
                              then r\<lparr>star_rating := SReal rating\<rparr> else r) tbl)"
       "resp = (song_id, rating)"
    by (auto simp: rate_song_def sql_update_rating_def split: if_splits)
  from ne have "\<exists>r \<in> set tbl. id_col r = SText song_id"
    by (simp add: filter_empty_conv)
  with db range rest show ?thesis using that by blast
qed

text \<open>
  C8, as the code has it. When several rows share an id, the overlay of
  \<^verbatim>\<open>load_data\<close> maps the id to the rating of the last row read, that is the last in
  rowid order of the rows with a positive rating; \<^verbatim>\<open>rate_song\<close> sets the rating of
  every row with the id and leaves the other rows as they were.
\<close>

theorem duplicate_ids:
  "existing_ratings_of tbl k =
     (if filter (\<lambda>r. id_col r = k \<and> greater_zero (star_rating r)) tbl = [] then None
      else Some (star_rating
             (last (filter (\<lambda>r. id_col r = k \<and> greater_zero (star_rating r)) tbl)))) \<and>
   (rate_song (Some tbl) song_id rating = (Inr resp, Some updated) \<longrightarrow>
      length updated = length tbl \<and>
      (\<forall>i < length tbl.
         (id_col (tbl ! i) = SText song_id \<longrightarrow>
            updated ! i = (tbl ! i)\<lparr>star_rating := SReal rating\<rparr>) \<and>
         (id_col (tbl ! i) \<noteq> SText song_id \<longrightarrow> updated ! i = tbl ! i)))"
proof (intro conjI impI)
  show "existing_ratings_of tbl k =
     (if filter (\<lambda>r. id_col r = k \<and> greater_zero (star_rating r)) tbl = [] then None
      else Some (star_rating
             (last (filter (\<lambda>r. id_col r = k \<and> greater_zero (star_rating r)) tbl))))"
    by (rule existing_ratings_of_last)
next
  assume "rate_song (Some tbl) song_id rating = (Inr resp, Some updated)"
  then obtain t where "Some tbl = Some t"
    and "Some updated = Some (map (\<lambda>r. if id_col r = SText song_id
                              then r\<lparr>star_rating := SReal rating\<rparr> else r) t)"
    by (rule rate_song_Inr)
  then have t2: "updated = map (\<lambda>r. if id_col r = SText song_id
                              then r\<lparr>star_rating := SReal rating\<rparr> else r) tbl"
    by simp
  then show "length updated = length tbl" by simp
  from t2 show "\<forall>i < length tbl.
         (id_col (tbl ! i) = SText song_id \<longrightarrow>
            updated ! i = (tbl ! i)\<lparr>star_rating := SReal rating\<rparr>) \<and>
         (id_col (tbl ! i) \<noteq> SText song_id \<longrightarrow> updated ! i = tbl ! i)"
    by simp
qed

theorem duplicate_ids_witness:
  "existing_ratings_of
     [\<lparr>idx = 0, id_col = SText ''a'', title = SText ''X'', features = [],
        star_rating = SReal 2\<rparr>,
      \<lparr>idx = 1, id_col = SText ''a'', title = SText ''Y'', features = [],
        star_rating = SReal 4\<rparr>] (SText ''a'') = Some (SReal 4) \<and>
   rate_song
       (Some [\<lparr>idx = 0, id_col = SText ''a'', title = SText ''X'', features = [],
                star_rating = SReal 2\<rparr>,
              \<lparr>idx = 1, id_col = SText ''a'', title = SText ''Y'', features = [],
                star_rating = SReal 4\<rparr>]) ''a'' 3
     = (Inr (''a'', 3),
        Some [\<lparr>idx = 0, id_col = SText ''a'', title = SText ''X'', features = [],
                star_rating = SReal 3\<rparr>,
              \<lparr>idx = 1, id_col = SText ''a'', title = SText ''Y'', features = [],
                star_rating = SReal 3\<rparr>])"
proof -
  let ?tbl = "[\<lparr>idx = 0, id_col = SText ''a'', title = SText ''X'', features = [],
                 star_rating = SReal 2\<rparr>,
               \<lparr>idx = 1, id_col = SText ''a'', title = SText ''Y'', features = [],
                 star_rating = SReal 4\<rparr>]"
  let ?rated = "[\<lparr>idx = 0, id_col = SText ''a'', title = SText ''X'', features = [],
                 star_rating = SReal 3\<rparr>,
               \<lparr>idx = 1, id_col = SText ''a'', title = SText ''Y'', features = [],
                 star_rating = SReal 3\<rparr>]"
  note t = duplicate_ids [where tbl = ?tbl and k = "SText ''a''" and song_id = "''a''"
      and rating = 3 and resp = "(''a'', 3)" and updated = ?rated]
  from t have a: "existing_ratings_of ?tbl (SText ''a'') = Some (SReal 4)" by simp
  have r: "rate_song (Some ?tbl) ''a'' 3 = (Inr (''a'', 3), Some ?rated)"
    by (simp add: rate_song_def sql_update_rating_def)
  with t have "length ?rated = length ?tbl" by blast
  from a r show ?thesis by simp
qed

text \<open>
  C8, as the claim has it: the update changes only the first matching record. On a table
  with two rows of id "a", \<^verbatim>\<open>rate_song\<close> with 3 sets both ratings, where the first
  match alone would leave the second row at 0.0.
\<close>

theorem update_first_match_counterexample:
  "snd (rate_song
     (Some [\<lparr>idx = 0, id_col = SText ''a'', title = SText ''X'', features = [],
             star_rating = SReal 0\<rparr>,
            \<lparr>idx = 1, id_col = SText ''a'', title = SText ''Y'', features = [],
             star_rating = SReal 0\<rparr>]) ''a'' 3)
   = Some [\<lparr>idx = 0, id_col = SText ''a'', title = SText ''X'', features = [],
             star_rating = SReal 3\<rparr>,
           \<lparr>idx = 1, id_col = SText ''a'', title = SText ''Y'', features = [],
             star_rating = SReal 3\<rparr>] \<and>
   update_first_match
     [\<lparr>idx = 0, id_col = SText ''a'', title = SText ''X'', features = [],
        star_rating = SReal 0\<rparr>,
      \<lparr>idx = 1, id_col = SText ''a'', title = SText ''Y'', features = [],
        star_rating = SReal 0\<rparr>] 3 ''a''
   = [\<lparr>idx = 0, id_col = SText ''a'', title = SText ''X'', features = [],
        star_rating = SReal 3\<rparr>,
      \<lparr>idx = 1, id_col = SText ''a'', title = SText ''Y'', features = [],
        star_rating = SReal 0\<rparr>] \<and>
   snd (rate_song
     (Some [\<lparr>idx = 0, id_col = SText ''a'', title = SText ''X'', features = [],
             star_rating = SReal 0\<rparr>,
            \<lparr>idx = 1, id_col = SText ''a'', title = SText ''Y'', features = [],
             star_rating = SReal 0\<rparr>]) ''a'' 3)
   \<noteq> Some (update_first_match
     [\<lparr>idx = 0, id_col = SText ''a'', title = SText ''X'', features = [],
        star_rating = SReal 0\<rparr>,
      \<lparr>idx = 1, id_col = SText ''a'', title = SText ''Y'', features = [],
        star_rating = SReal 0\<rparr>] 3 ''a'')"
  by (simp add: rate_song_def sql_update_rating_def)

lemma list_all2_rows:
  "list_all2 P songs rows \<Longrightarrow> r \<in> set rows \<Longrightarrow> \<exists>song \<in> set songs. P song r"
  by (induction rule: list_all2_induct) auto

lemma preserved_rating_of_row:
  assumes "row_of_song eng song r" and "string_or_null (song_get song ''id'')"
    and "and_then (preserved_rating True ex song) (\<lambda>v. Inr (real_affinity eng v))
           = Inr (star_rating r)"
  shows "star_rating r =
           real_affinity eng (case ex (id_col r) of None \<Rightarrow> SReal 0 | Some v \<Rightarrow> v)"
proof -
  from assms(1,2) have "dict_key (song_get song ''id'') = Inr (id_col r)"
    by (cases "song_get song ''id''") (auto simp: row_of_song_def and_then_def)
  with assms(3) show ?thesis by (simp add: preserved_rating_def and_then_def)
qed

lemma insert_songs_preserved:
  assumes ins: "insert_songs eng True ex songs [] = Inr tbl'"
    and ids: "list_all (\<lambda>song. string_or_null (song_get song ''id'')) songs"
    and r: "r \<in> set tbl'"
  shows "star_rating r =
           real_affinity eng (case ex (id_col r) of None \<Rightarrow> SReal 0 | Some v \<Rightarrow> v)"
proof -
  from insert_songs_from_empty [OF ins] obtain rows
    where m: "mset rows = mset tbl'"
      and l: "list_all2 (\<lambda>song r. row_of_song eng song r \<and>
                and_then (preserved_rating True ex song) (\<lambda>v. Inr (real_affinity eng v))
                  = Inr (star_rating r)) songs rows"
    by blast
  from m r have "r \<in> set rows" by (metis set_mset_mset)
  from list_all2_rows [OF l this] obtain song
    where s: "song \<in> set songs" and "row_of_song eng song r"
      and "and_then (preserved_rating True ex song) (\<lambda>v. Inr (real_affinity eng v))
             = Inr (star_rating r)"
    by blast
  moreover from ids s have "string_or_null (song_get song ''id'')"
    by (simp add: list_all_iff)
  ultimately show ?thesis by (intro preserved_rating_of_row)
qed

lemma insert_songs_reset:
  assumes ins: "insert_songs eng False ex songs [] = Inr tbl'" and r: "r \<in> set tbl'"
  shows "star_rating r = SReal 0"
proof -
  from insert_songs_from_empty [OF ins] obtain rows
    where m: "mset rows = mset tbl'"
      and l: "list_all2 (\<lambda>song r. row_of_song eng song r \<and>
                and_then (preserved_rating False ex song) (\<lambda>v. Inr (real_affinity eng v))
                  = Inr (star_rating r)) songs rows"
    by blast
  from m r have "r \<in> set rows" by (metis set_mset_mset)
  from list_all2_rows [OF l this] show ?thesis
    by (auto simp: preserved_rating_def and_then_def)
qed

lemma rowid_of_cong:
  assumes "map idx t2 = map idx t1"
  shows "rowid_of eng t2 v = rowid_of eng t1 v"
proof -
  from assms have "(t2 = []) = (t1 = [])" by (metis map_is_Nil_conv)
  with assms have "next_rowid eng t2 = next_rowid eng t1" by (simp add: next_rowid_def)
  then show ?thesis by (simp add: rowid_of_def split: sqlval.split)
qed

lemma insert_song_rerun:
  assumes "insert_song eng t1 song rating1 = Inr t1'" and "map idx t2 = map idx t1"
  shows "\<exists>t2'. insert_song eng t2 song rating2 = Inr t2' \<and> map idx t2' = map idx t1'"
proof -
  from assms(1) obtain idx_v id_v title_v feature_vs i
    where b: "bind_param (song_get song ''index'') = Inr idx_v"
             "bind_param (song_get song ''id'') = Inr id_v"
             "bind_param (song_get song ''title'') = Inr title_v"
             "bind_params (map (song_get song) feature_columns) = Inr feature_vs"
      and i: "rowid_of eng t1 idx_v = Inr i"
      and ins: "(if i \<in> set (map idx t1) then Inl IntegrityError
                 else Inr (insort_key idx
                   \<lparr>idx = i, id_col = text_affinity eng id_v,
                    title = text_affinity eng title_v,
                    features = map2 (column_affinity eng) feature_affinities feature_vs,
                    star_rating = real_affinity eng rating1\<rparr> t1)) = Inr t1'"
    unfolding insert_song_def sql_insert_def and_then_Inr_iff by blast
  from ins have fresh: "i \<notin> set (map idx t1)"
    and t1': "t1' = insort_key idx \<lparr>idx = i, id_col = text_affinity eng id_v,
                title = text_affinity eng title_v,
                features = map2 (column_affinity eng) feature_affinities feature_vs,
                star_rating = real_affinity eng rating1\<rparr> t1"
    by (auto split: if_splits)
  from i rowid_of_cong [OF assms(2)] have i2: "rowid_of eng t2 idx_v = Inr i" by simp
  from fresh assms(2) have fresh2: "i \<notin> set (map idx t2)" by simp
  have "insert_song eng t2 song rating2 = Inr (insort_key idx \<lparr>idx = i,
          id_col = text_affinity eng id_v, title = text_affinity eng title_v,
          features = map2 (column_affinity eng) feature_affinities feature_vs,
          star_rating = real_affinity eng rating2\<rparr> t2)"
    using b i2 fresh2 by (simp add: insert_song_def sql_insert_def and_then_def)
  moreover have "map idx (insort_key idx \<lparr>idx = i,
          id_col = text_affinity eng id_v, title = text_affinity eng title_v,
          features = map2 (column_affinity eng) feature_affinities feature_vs,
          star_rating = real_affinity eng rating2\<rparr> t2) = map idx t1'"
    by (simp add: t1' map_idx_insort_key assms(2))
  ultimately show ?thesis by blast
qed

lemma insert_song_hashable:
  assumes "insert_song eng tbl song rating = Inr tbl'"
  shows "\<exists>rating'. preserved_rating preserve ex song = Inr rating'"
proof -
  from assms obtain id_v where "bind_param (song_get song ''id'') = Inr id_v"
    unfolding insert_song_def and_then_Inr_iff by blast
  then have "dict_key (song_get song ''id'') = Inr id_v" by (rule bind_param_dict_key)
  then show ?thesis by (simp add: preserved_rating_def and_then_def)
qed

lemma insert_songs_rerun:
  "insert_songs eng preserve1 ex1 songs t1 = Inr t1' \<Longrightarrow> map idx t2 = map idx t1 \<Longrightarrow>
   \<exists>t2'. insert_songs eng preserve2 ex2 songs t2 = Inr t2' \<and> map idx t2' = map idx t1'"
proof (induction songs arbitrary: t1 t2)
  case Nil
  then show ?case by simp
next
  case (Cons song songs)
  from Cons.prems(1) obtain rating1 u1
    where one: "insert_song eng t1 song rating1 = Inr u1"
      and rest: "insert_songs eng preserve1 ex1 songs u1 = Inr t1'"
    by (auto simp: and_then_Inr_iff)
  from insert_song_hashable [OF one] obtain rating2
    where p2: "preserved_rating preserve2 ex2 song = Inr rating2" by blast
  from insert_song_rerun [OF one Cons.prems(2)] obtain u2
    where two: "insert_song eng t2 song rating2 = Inr u2" and u: "map idx u2 = map idx u1"
    by blast
  from Cons.IH [OF rest u] p2 two show ?case by (simp add: and_then_def)
qed

lemma rows_id_col:
  assumes "list_all2 (\<lambda>song r. row_of_song eng song r \<and> Q1 song r) songs rows1"
    and "list_all2 (\<lambda>song r. row_of_song eng song r \<and> Q2 song r) songs rows2"
  shows "map id_col rows2 = map id_col rows1"
proof (rule nth_equalityI)
  from assms show len: "length (map id_col rows2) = length (map id_col rows1)"
    by (simp add: list_all2_conv_all_nth)
  fix i assume "i < length (map id_col rows2)"
  with assms have i: "i < length songs" "i < length rows1" "i < length rows2"
    by (simp_all add: list_all2_conv_all_nth)
  with assms have "row_of_song eng (songs ! i) (rows1 ! i)"
    "row_of_song eng (songs ! i) (rows2 ! i)"
    by (simp_all add: list_all2_conv_all_nth)
  then have "id_col (rows2 ! i) = id_col (rows1 ! i)" by (simp add: row_of_song_def)
  with i show "map id_col rows2 ! i = map id_col rows1 ! i" by simp
qed

lemma length_filter_count:
  "length (filter (\<lambda>r. f r = k) xs) = count (mset (map f xs)) k"
  by (induction xs) simp_all

lemma insert_songs_ids:
  assumes "insert_songs eng p1 ex1 songs [] = Inr t1"
    and "insert_songs eng p2 ex2 songs [] = Inr t2"
  shows "mset (map id_col t2) = mset (map id_col t1)"
proof -
  from insert_songs_from_empty [OF assms(1)] obtain rows1
    where m1: "mset rows1 = mset t1"
      and l1: "list_all2 (\<lambda>song r. row_of_song eng song r \<and>
                 and_then (preserved_rating p1 ex1 song) (\<lambda>v. Inr (real_affinity eng v))
                   = Inr (star_rating r)) songs rows1"
    by blast
  from insert_songs_from_empty [OF assms(2)] obtain rows2
    where m2: "mset rows2 = mset t2"
      and l2: "list_all2 (\<lambda>song r. row_of_song eng song r \<and>
                 and_then (preserved_rating p2 ex2 song) (\<lambda>v. Inr (real_affinity eng v))
                   = Inr (star_rating r)) songs rows2"
    by blast
  have "map id_col rows2 = map id_col rows1"
    using l1 l2 by (rule rows_id_col)
  moreover from m1 have "mset (map id_col rows1) = mset (map id_col t1)"
    by (metis mset_map)
  moreover from m2 have "mset (map id_col rows2) = mset (map id_col t2)"
    by (metis mset_map)
  ultimately show ?thesis by simp
qed

text \<open>
  For a snapshot whose record ids are strings or \<^verbatim>\<open>None\<close> the round trip keeps the
  rating. Ingest the snapshot with preserve-ratings off, rate a song by its id, ingest the
  same snapshot again with preserve-ratings on: the second ingestion succeeds with the
  same count, the rows with the rated id have the rated value as their rating, every other
  row has 0.0, and the table has as many rows with that id as before (one, when one song
  has the id).
\<close>

theorem rating_survives_reload:
  assumes snap: "fs file_path = Some f" "json_content f = Inr json_data"
      "normalize_json json_data = Inr songs"
    and ids: "list_all (\<lambda>song. string_or_null (song_get song ''id'')) songs"
    and l1: "load_data eng fs db file_path False = (Inr n, db1)"
    and rt: "rate_song db1 song_id rating = (Inr resp, db2)"
  shows "\<exists>tbl1 tbl3. db1 = Some tbl1 \<and>
           load_data eng fs db2 file_path True = (Inr n, Some tbl3) \<and>
           (\<forall>r \<in> set tbl3. star_rating r =
               (if id_col r = SText song_id then SReal rating else SReal 0)) \<and>
           (\<exists>r \<in> set tbl3. id_col r = SText song_id) \<and>
           length (filter (\<lambda>r. id_col r = SText song_id) tbl3) =
             length (filter (\<lambda>r. id_col r = SText song_id) tbl1)"
proof -
  from l1 obtain f' json_data' songs' tbl0 tbl1
    where f': "fs file_path = Some f'" "json_content f' = Inr json_data'"
      and songs': "normalize_json json_data' = Inr songs'"
      and ins: "insert_songs eng False (if False then existing_ratings_of tbl0 else Map.empty)
                  songs' [] = Inr tbl1"
      and n: "n = length songs'" and db1: "db1 = Some tbl1"
    by (rule load_data_Inr)
  from snap f' songs' have same: "songs' = songs" by simp
  from ins same have ins1: "insert_songs eng False Map.empty songs [] = Inr tbl1" by simp
  let ?upd = "\<lambda>r. if id_col r = SText song_id then r\<lparr>star_rating := SReal rating\<rparr> else r"
  let ?tbl2 = "map ?upd tbl1"
  from rt obtain tbl where "db1 = Some tbl" and range: "0 \<le> rating"
    and "\<exists>r \<in> set tbl. id_col r = SText song_id" and "db2 = Some (map ?upd tbl)"
    by (rule rate_song_Inr)
  with db1 have hit: "\<exists>r \<in> set tbl1. id_col r = SText song_id"
    and db2: "db2 = Some ?tbl2"
    by simp_all
  from insert_songs_rerun [OF ins1, of "[]" True "existing_ratings_of ?tbl2"] obtain tbl3
    where ins3: "insert_songs eng True (existing_ratings_of ?tbl2) songs [] = Inr tbl3"
    by auto
  with snap n same db2 have l3: "load_data eng fs db2 file_path True = (Inr n, Some tbl3)"
    by (simp add: load_data_def)
  have zero: "\<forall>r \<in> set tbl1. star_rating r = SReal 0"
  proof
    fix r assume "r \<in> set tbl1"
    with ins1 show "star_rating r = SReal 0" by (rule insert_songs_reset)
  qed
  then have uni: "\<forall>r \<in> set ?tbl2. greater_zero (star_rating r) \<longrightarrow>
      id_col r = SText song_id \<and> star_rating r = SReal rating"
    by auto
  have pos: "(\<exists>r \<in> set ?tbl2. greater_zero (star_rating r)) = (0 < rating)"
  proof
    assume "\<exists>r \<in> set ?tbl2. greater_zero (star_rating r)"
    then obtain r where "r \<in> set ?tbl2" and g: "greater_zero (star_rating r)" by blast
    with uni have "star_rating r = SReal rating" by blast
    with g show "0 < rating" by simp
  next
    assume p: "0 < rating"
    from hit obtain r0 where r0: "r0 \<in> set tbl1" "id_col r0 = SText song_id" by blast
    then have "?upd r0 \<in> ?upd ` set tbl1" by (intro imageI)
    then have "?upd r0 \<in> set ?tbl2" unfolding set_map .
    moreover from r0 p have "greater_zero (star_rating (?upd r0))" by simp
    ultimately show "\<exists>r \<in> set ?tbl2. greater_zero (star_rating r)" by blast
  qed
  have ex: "existing_ratings_of ?tbl2 k =
      (if k = SText song_id \<and> 0 < rating then Some (SReal rating) else None)" for k
    using existing_ratings_of_uniform [OF uni, of k] pos by simp
  have ratings: "\<forall>r \<in> set tbl3. star_rating r =
      (if id_col r = SText song_id then SReal rating else SReal 0)"
  proof
    fix r assume "r \<in> set tbl3"
    with ins3 ids
    have "star_rating r = real_affinity eng (case existing_ratings_of ?tbl2 (id_col r) of
                            None \<Rightarrow> SReal 0 | Some v \<Rightarrow> v)"
      by (rule insert_songs_preserved)
    with range show "star_rating r = (if id_col r = SText song_id then SReal rating else SReal 0)"
      by (auto simp: ex)
  qed
  from insert_songs_ids [OF ins1 ins3]
  have "mset (map id_col tbl3) = mset (map id_col tbl1)" .
  then have cnt: "length (filter (\<lambda>r. id_col r = SText song_id) tbl3) =
             length (filter (\<lambda>r. id_col r = SText song_id) tbl1)"
    by (simp add: length_filter_count)
  from hit have "filter (\<lambda>r. id_col r = SText song_id) tbl1 \<noteq> []"
    by (simp add: filter_empty_conv)
  with cnt have "filter (\<lambda>r. id_col r = SText song_id) tbl3 \<noteq> []" by auto
  then have hit3: "\<exists>r \<in> set tbl3. id_col r = SText song_id"
    by (simp add: filter_empty_conv)
  from db1 l3 ratings hit3 cnt show ?thesis by blast
qed

theorem rating_survives_reload_witness:
  "\<exists>tbl1 tbl3.
     Some [\<lparr>idx = 0, id_col = SText ''a'', title = SText ''X'',
             features = replicate 16 SNull, star_rating = SReal 0\<rparr>,
           \<lparr>idx = 1, id_col = SText ''b'', title = SText ''Y'',
             features = replicate 16 SNull, star_rating = SReal 0\<rparr>] = Some tbl1 \<and>
     load_data \<lparr>real_text = (\<lambda>r. []), text_number = (\<lambda>s. None), spare_rowid = (\<lambda>ids. None)\<rparr>
       [''playlist.json'' \<mapsto> \<lparr>mtime = 1, json_content = Inr (JObj
          [(''id'', JObj [(''0'', JStr ''a''), (''1'', JStr ''b'')]),
           (''title'', JObj [(''0'', JStr ''X''), (''1'', JStr ''Y'')])]), songs_rows = None\<rparr>]
       (Some [\<lparr>idx = 0, id_col = SText ''a'', title = SText ''X'',
               features = replicate 16 SNull, star_rating = SReal 4.5\<rparr>,
             \<lparr>idx = 1, id_col = SText ''b'', title = SText ''Y'',
               features = replicate 16 SNull, star_rating = SReal 0\<rparr>])
       ''playlist.json'' True = (Inr 2, Some tbl3) \<and>
     (\<forall>r \<in> set tbl3. star_rating r = (if id_col r = SText ''a'' then SReal 4.5 else SReal 0)) \<and>
     (\<exists>r \<in> set tbl3. id_col r = SText ''a'') \<and>
     length (filter (\<lambda>r. id_col r = SText ''a'') tbl3) =
       length (filter (\<lambda>r. id_col r = SText ''a'') tbl1)"
proof -
  let ?json = "JObj [(''id'', JObj [(''0'', JStr ''a''), (''1'', JStr ''b'')]),
                     (''title'', JObj [(''0'', JStr ''X''), (''1'', JStr ''Y'')])]"
  let ?f = "\<lparr>mtime = 1, json_content = Inr ?json, songs_rows = None\<rparr>"
  let ?fs = "[''playlist.json'' \<mapsto> ?f]"
  have s1: "?fs ''playlist.json'' = Some ?f" by simp
  have s2: "json_content ?f = Inr ?json" by simp
  obtain songs where s3: "normalize_json ?json = Inr songs"
    and ids: "list_all (\<lambda>song. string_or_null (song_get song ''id'')) songs"
    by (simp add: normalize_json_def build_song_def str.simps digit_def upt_rec song_get_def)
  have 1: "load_data \<lparr>real_text = (\<lambda>r. []), text_number = (\<lambda>s. None), spare_rowid = (\<lambda>ids. None)\<rparr> ?fs (Some []) ''playlist.json'' False
     = (Inr 2, Some [\<lparr>idx = 0, id_col = SText ''a'', title = SText ''X'',
                        features = replicate 16 SNull, star_rating = SReal 0\<rparr>,
                     \<lparr>idx = 1, id_col = SText ''b'', title = SText ''Y'',
                        features = replicate 16 SNull, star_rating = SReal 0\<rparr>])"
    by (simp add: load_data_def normalize_json_def build_song_def str.simps digit_def upt_rec
        insert_song_def sql_insert_def rowid_of_def next_rowid_def and_then_def song_get_def
        feature_columns_def feature_affinities_def preserved_rating_def int64_def
        existing_ratings_of_def text_of_int_def eval_nat_numeral)
  have 2: "rate_song
       (Some [\<lparr>idx = 0, id_col = SText ''a'', title = SText ''X'',
                features = replicate 16 SNull, star_rating = SReal 0\<rparr>,
              \<lparr>idx = 1, id_col = SText ''b'', title = SText ''Y'',
                features = replicate 16 SNull, star_rating = SReal 0\<rparr>]) ''a'' 4.5
     = (Inr (''a'', 4.5),
        Some [\<lparr>idx = 0, id_col = SText ''a'', title = SText ''X'',
                features = replicate 16 SNull, star_rating = SReal 4.5\<rparr>,
              \<lparr>idx = 1, id_col = SText ''b'', title = SText ''Y'',
                features = replicate 16 SNull, star_rating = SReal 0\<rparr>])"
    by (simp add: rate_song_def sql_update_rating_def)
  show ?thesis by (rule rating_survives_reload [OF s1 s2 s3 ids 1 2])
qed

text \<open>
  C3. The claim, and the docstrings (\<^verbatim>\<open>load_data\<close> preserves user ratings by song id,
  a rating is preserved during automatic data reloads): after ingesting a snapshot with
  preserve-ratings off, rating one song by id and ingesting the same snapshot with
  preserve-ratings on, that song has the rated value. The id column is TEXT, so the id 5
  of the snapshot \<^verbatim>\<open>{"id": {"0": 5}, "title": {"0": "X"}}\<close> is stored as the text "5":
  \<^verbatim>\<open>rate_song\<close> with the id "5" and 4.5 succeeds, the overlay of the next ingestion
  has the key "5", line 261 looks up the integer 5 of the snapshot, misses, and the song is
  back at 0.0.
\<close>

theorem numeric_id_loses_rating:
  "load_data \<lparr>real_text = (\<lambda>r. []), text_number = (\<lambda>s. None), spare_rowid = (\<lambda>ids. None)\<rparr>
     [''playlist.json'' \<mapsto> \<lparr>mtime = 1, json_content = Inr (JObj
        [(''id'', JObj [(''0'', JInt 5)]),
         (''title'', JObj [(''0'', JStr ''X'')])]), songs_rows = None\<rparr>]
     (Some []) ''playlist.json'' False
   = (Inr 1, Some [\<lparr>idx = 0, id_col = SText ''5'', title = SText ''X'',
                      features = replicate 16 SNull, star_rating = SReal 0\<rparr>]) \<and>
   rate_song
     (Some [\<lparr>idx = 0, id_col = SText ''5'', title = SText ''X'',
              features = replicate 16 SNull, star_rating = SReal 0\<rparr>]) ''5'' 4.5
   = (Inr (''5'', 4.5),
      Some [\<lparr>idx = 0, id_col = SText ''5'', title = SText ''X'',
              features = replicate 16 SNull, star_rating = SReal 4.5\<rparr>]) \<and>
   load_data \<lparr>real_text = (\<lambda>r. []), text_number = (\<lambda>s. None), spare_rowid = (\<lambda>ids. None)\<rparr>
     [''playlist.json'' \<mapsto> \<lparr>mtime = 1, json_content = Inr (JObj
        [(''id'', JObj [(''0'', JInt 5)]),
         (''title'', JObj [(''0'', JStr ''X'')])]), songs_rows = None\<rparr>]
     (Some [\<lparr>idx = 0, id_col = SText ''5'', title = SText ''X'',
              features = replicate 16 SNull, star_rating = SReal 4.5\<rparr>])
     ''playlist.json'' True
   = (Inr 1, Some [\<lparr>idx = 0, id_col = SText ''5'', title = SText ''X'',
                      features = replicate 16 SNull, star_rating = SReal 0\<rparr>])"
  by (simp add: load_data_def normalize_json_def build_song_def str.simps digit_def upt_rec
        insert_song_def sql_insert_def rowid_of_def next_rowid_def and_then_def song_get_def
        feature_columns_def feature_affinities_def preserved_rating_def int64_def
        existing_ratings_of_def text_of_int_def eval_nat_numeral rate_song_def sql_update_rating_def)

end
